theory Spec2Isabelle
  imports Main "HOL-Library.AList" "HOL-Library.Product_Lexorder"
begin

section \<open>Strings of the source\<close>

text \<open>
  A JavaScript string is modelled as a \<^typ>\<open>string\<close>; a \<^typ>\<open>char\<close> with value
  \<open>n\<close> stands for the UTF-16 code unit \<open>n\<close> (U+0000 to U+00FF). The functions below
  follow ECMAScript on that range.
\<close>

definition truthy :: "string \<Rightarrow> bool" where
  \<comment> \<open>\<^verbatim>\<open>if (s)\<close> on a string: the empty string is falsy.\<close>
  "truthy s = (s \<noteq> [])"

definition lowerChar :: "char \<Rightarrow> char" where
  \<comment> \<open>\<^verbatim>\<open>String.prototype.toLowerCase\<close> on one code unit: A-Z, and the Latin-1
      capitals U+00C0-U+00DE but the multiplication sign U+00D7.\<close>
  "lowerChar c =
     (let n = (of_char c :: nat) in
      if (65 \<le> n \<and> n \<le> 90) \<or> (192 \<le> n \<and> n \<le> 222 \<and> n \<noteq> 215)
      then char_of (n + 32) else c)"

definition toLowerCase :: "string \<Rightarrow> string" where
  "toLowerCase s = map lowerChar s"

definition isSpace :: "char \<Rightarrow> bool" where
  \<comment> \<open>the regular expression class \<^verbatim>\<open>\s\<close>, and the characters \<^verbatim>\<open>trim()\<close> removes:
      TAB, LF, VT, FF, CR, SPACE, NBSP.\<close>
  "isSpace c = ((of_char c :: nat) \<in> {9, 10, 11, 12, 13, 32, 160})"

definition isLower :: "char \<Rightarrow> bool" where
  "isLower c = (97 \<le> (of_char c :: nat) \<and> (of_char c :: nat) \<le> 122)"

definition isDigit :: "char \<Rightarrow> bool" where
  "isDigit c = (48 \<le> (of_char c :: nat) \<and> (of_char c :: nat) \<le> 57)"

definition isHyphen :: "char \<Rightarrow> bool" where
  "isHyphen c = (c = CHR ''-'')"

definition keptChar :: "char \<Rightarrow> bool" where
  \<comment> \<open>the characters the class \<^verbatim>\<open>[^a-z0-9\s-]\<close> does not match\<close>
  "keptChar c = (isLower c \<or> isDigit c \<or> isSpace c \<or> isHyphen c)"

function replaceRuns :: "(char \<Rightarrow> bool) \<Rightarrow> string \<Rightarrow> string \<Rightarrow> string" where
  \<comment> \<open>\<^verbatim>\<open>s.replace(/P+/g, r)\<close>: every maximal run of characters of the class \<open>P\<close>
      becomes one copy of \<open>r\<close>.\<close>
  "replaceRuns P r [] = []"
| "replaceRuns P r (c # cs) =
     (if P c then r @ replaceRuns P r (dropWhile P cs) else c # replaceRuns P r cs)"
  by pat_completeness auto
termination
  by (relation "measure (\<lambda>(P, r, s). length s)") (auto simp: length_dropWhile_le less_Suc_eq_le)

definition trim :: "string \<Rightarrow> string" where
  \<comment> \<open>\<^verbatim>\<open>String.prototype.trim\<close>: white space is removed at both ends.\<close>
  "trim s = rev (dropWhile isSpace (rev (dropWhile isSpace s)))"

definition generateSlug :: "string \<Rightarrow> string" where
  \<comment> \<open>supabase.ts, \<^verbatim>\<open>generateSlug\<close>: the five steps in the order of the source.\<close>
  "generateSlug name =
     trim (replaceRuns isHyphen ''-''
       (replaceRuns isSpace ''-''
         (filter keptChar (toLowerCase name))))"

definition slugChar :: "char \<Rightarrow> bool" where
  \<comment> \<open>the class \<^verbatim>\<open>[a-z0-9-]\<close>\<close>
  "slugChar c = (isLower c \<or> isDigit c \<or> isHyphen c)"

fun noHyphenPair :: "string \<Rightarrow> bool" where
  \<comment> \<open>no two neighbouring characters are both hyphens\<close>
  "noHyphenPair [] = True"
| "noHyphenPair [a] = True"
| "noHyphenPair (a # b # cs) = ((isHyphen a \<longrightarrow> \<not> isHyphen b) \<and> noHyphenPair (b # cs))"

section \<open>Rows of the store\<close>

text \<open>
  The three tables the handlers of \<^verbatim>\<open>index.ts\<close> use, with the columns of the interfaces
  \<^verbatim>\<open>Project\<close>, \<^verbatim>\<open>Task\<close> and \<^verbatim>\<open>ActivityLog\<close> of \<^verbatim>\<open>supabase.ts\<close>. A column keeps
  its name behind a prefix for its table (\<open>p_\<close>, \<open>t_\<close>, \<open>a_\<close>). A nullable column is an
  \<^typ>\<open>'a option\<close>, \<open>None\<close> for \<^verbatim>\<open>null\<close>. The columns of a task that the handlers write
  once, as a constant, and never again (\<^verbatim>\<open>roadmap_id\<close>, \<^verbatim>\<open>blocked_by\<close>,
  \<^verbatim>\<open>deliverable_path\<close>, \<^verbatim>\<open>deliverables\<close>, \<^verbatim>\<open>metadata\<close>, \<^verbatim>\<open>due_date\<close>) and
  \<^verbatim>\<open>updated_at\<close> are left out. Primary keys, which the store generates, are numbers;
  so are instants of time. The hours of a task, which the handlers only copy, are integers.
\<close>

type_synonym row_id = nat
type_synonym timestamp = nat

datatype project_status = Planning | Active | Paused | Completed | Archived

datatype task_status = Backlog | Todo | In_progress | Review | Blocked | Done

datatype priority_level = Critical | High | Medium | Low

datatype json = JNull | JBool bool | JNum int | JStr string | JObj "(string \<times> json) list"

record project =
  p_id :: row_id
  p_name :: string
  p_slug :: string
  p_description :: "string option"
  p_status :: project_status
  p_template :: "string option"
  p_tech_stack :: json
  p_settings :: json
  p_metadata :: json
  p_created_at :: timestamp

record task =
  t_id :: row_id
  t_project_id :: row_id
  t_parent_id :: "row_id option"
  t_title :: string
  t_description :: "string option"
  t_status :: task_status
  t_priority :: priority_level
  t_assigned_team :: "string option"
  t_assigned_agent :: "string option"
  t_estimated_hours :: "int option"
  t_actual_hours :: "int option"
  t_started_at :: "timestamp option"
  t_completed_at :: "timestamp option"
  t_blocker_reason :: "string option"
  t_tags :: "string list"
  t_created_by :: "string option"
  t_updated_by :: "string option"
  t_created_at :: timestamp

record activity =
  a_id :: row_id
  a_project_id :: "row_id option"
  a_team :: "string option"
  a_agent :: string
  a_action :: string
  a_details :: json
  a_related_id :: "row_id option"
  a_related_type :: "string option"
  a_created_at :: timestamp

text \<open>
  The object a handler passes to \<^verbatim>\<open>update\<close>: a key that is absent is \<open>None\<close>, a key
  that is present carries the value to write (\<open>Some None\<close> writes \<^verbatim>\<open>null\<close>).
\<close>

record task_patch =
  u_title :: "string option"
  u_description :: "string option"
  u_status :: "task_status option"
  u_priority :: "priority_level option"
  u_assigned_team :: "string option"
  u_assigned_agent :: "string option option"
  u_estimated_hours :: "int option"
  u_actual_hours :: "int option"
  u_started_at :: "timestamp option"
  u_completed_at :: "timestamp option"
  u_blocker_reason :: "string option option"
  u_updated_by :: "string option"

record project_patch =
  v_name :: "string option"
  v_slug :: "string option"
  v_description :: "string option"
  v_status :: "project_status option"
  v_settings :: "json option"

definition no_task_patch :: task_patch where
  "no_task_patch =
     \<lparr>u_title = None, u_description = None, u_status = None, u_priority = None,
      u_assigned_team = None, u_assigned_agent = None, u_estimated_hours = None,
      u_actual_hours = None, u_started_at = None, u_completed_at = None,
      u_blocker_reason = None, u_updated_by = None\<rparr>"

definition no_project_patch :: project_patch where
  "no_project_patch =
     \<lparr>v_name = None, v_slug = None, v_description = None, v_status = None, v_settings = None\<rparr>"

definition patched :: "'a option \<Rightarrow> 'a \<Rightarrow> 'a" where
  \<comment> \<open>a column after an update: the value of the key, the old value without the key\<close>
  "patched u old = (case u of None \<Rightarrow> old | Some v \<Rightarrow> v)"

definition patch_task :: "task_patch \<Rightarrow> task \<Rightarrow> task" where
  "patch_task u t =
     t\<lparr>t_title := patched (u_title u) (t_title t),
       t_description := patched (map_option Some (u_description u)) (t_description t),
       t_status := patched (u_status u) (t_status t),
       t_priority := patched (u_priority u) (t_priority t),
       t_assigned_team := patched (map_option Some (u_assigned_team u)) (t_assigned_team t),
       t_assigned_agent := patched (u_assigned_agent u) (t_assigned_agent t),
       t_estimated_hours := patched (map_option Some (u_estimated_hours u)) (t_estimated_hours t),
       t_actual_hours := patched (map_option Some (u_actual_hours u)) (t_actual_hours t),
       t_started_at := patched (map_option Some (u_started_at u)) (t_started_at t),
       t_completed_at := patched (map_option Some (u_completed_at u)) (t_completed_at t),
       t_blocker_reason := patched (u_blocker_reason u) (t_blocker_reason t),
       t_updated_by := patched (map_option Some (u_updated_by u)) (t_updated_by t)\<rparr>"

definition patch_project :: "project_patch \<Rightarrow> project \<Rightarrow> project" where
  "patch_project v p =
     p\<lparr>p_name := patched (v_name v) (p_name p),
       p_slug := patched (v_slug v) (p_slug p),
       p_description := patched (map_option Some (v_description v)) (p_description p),
       p_status := patched (v_status v) (p_status p),
       p_settings := patched (v_settings v) (p_settings p)\<rparr>"

section \<open>The store\<close>

text \<open>
  The store is the state the handlers pass along. Whether a request fails is for the store
  to say (a lost connection, a timeout, a violated constraint): a request to a table fails
  with the message \<open>m\<close> while \<open>fault\<close> of that table is \<open>Some m\<close>, and a failed request
  changes nothing. The client resolves every request to a response that holds either the
  data or the error: it does not throw.
\<close>

datatype table = Projects | Tasks | Activity_log

record store =
  projects :: "project list"
  tasks :: "task list"
  activity_log :: "activity list"
  next_id :: row_id
  db_now :: timestamp
  fault :: "table \<Rightarrow> string option"

datatype 'a response = Data 'a | Failure string

text \<open>
  \<open>Failure m\<close> is a response whose \<^verbatim>\<open>error\<close> is the object the client builds from the
  answer of the store, \<^verbatim>\<open>{ message: m, details, hint, code }\<close>: a plain object, not an
  instance of \<^verbatim>\<open>Error\<close>. Every value the handlers throw is an instance of \<^verbatim>\<open>Error\<close>;
  \<open>Error m\<close> is the one with the message \<open>m\<close>.
\<close>

datatype exn = Error string

datatype js_value = ErrorInstance string | PostgrestErrorObject string

definition no_single_row :: string where
  \<comment> \<open>the error of \<^verbatim>\<open>.single()\<close> when the request does not yield exactly one row\<close>
  "no_single_row = ''JSON object requested, multiple (or no) rows returned''"

definition insert_project :: "store \<Rightarrow> project \<Rightarrow> project response \<times> store" where
  \<comment> \<open>\<^verbatim>\<open>from('projects').insert(row).select().single()\<close>; the store gives the row its
      \<^verbatim>\<open>id\<close> and \<^verbatim>\<open>created_at\<close>.\<close>
  "insert_project s row =
     (case fault s Projects of
        Some m \<Rightarrow> (Failure m, s)
      | None \<Rightarrow>
          (let p = row\<lparr>p_id := next_id s, p_created_at := db_now s\<rparr>
           in (Data p, s\<lparr>projects := projects s @ [p], next_id := Suc (next_id s)\<rparr>)))"

definition insert_task :: "store \<Rightarrow> task \<Rightarrow> task response \<times> store" where
  \<comment> \<open>\<^verbatim>\<open>from('tasks').insert(row).select().single()\<close>\<close>
  "insert_task s row =
     (case fault s Tasks of
        Some m \<Rightarrow> (Failure m, s)
      | None \<Rightarrow>
          (let t = row\<lparr>t_id := next_id s, t_created_at := db_now s\<rparr>
           in (Data t, s\<lparr>tasks := tasks s @ [t], next_id := Suc (next_id s)\<rparr>)))"

definition insert_activity :: "store \<Rightarrow> activity \<Rightarrow> unit response \<times> store" where
  \<comment> \<open>\<^verbatim>\<open>from('activity_log').insert(row)\<close>, which selects nothing back\<close>
  "insert_activity s row =
     (case fault s Activity_log of
        Some m \<Rightarrow> (Failure m, s)
      | None \<Rightarrow>
          (let a = row\<lparr>a_id := next_id s, a_created_at := db_now s\<rparr>
           in (Data (), s\<lparr>activity_log := activity_log s @ [a], next_id := Suc (next_id s)\<rparr>)))"

definition update_project :: "store \<Rightarrow> row_id \<Rightarrow> project_patch \<Rightarrow> project response \<times> store" where
  \<comment> \<open>\<^verbatim>\<open>from('projects').update(v).eq('id', i).select().single()\<close>; \<^verbatim>\<open>id\<close> is the
      primary key, so at most one row has it.\<close>
  "update_project s i v =
     (case fault s Projects of
        Some m \<Rightarrow> (Failure m, s)
      | None \<Rightarrow>
          (case filter (\<lambda>p. p_id p = i) (projects s) of
             [p] \<Rightarrow>
               (Data (patch_project v p),
                s\<lparr>projects := map (\<lambda>p. if p_id p = i then patch_project v p else p) (projects s)\<rparr>)
           | _ \<Rightarrow> (Failure no_single_row, s)))"

definition update_task :: "store \<Rightarrow> row_id \<Rightarrow> task_patch \<Rightarrow> task response \<times> store" where
  \<comment> \<open>\<^verbatim>\<open>from('tasks').update(u).eq('id', i).select().single()\<close>\<close>
  "update_task s i u =
     (case fault s Tasks of
        Some m \<Rightarrow> (Failure m, s)
      | None \<Rightarrow>
          (case filter (\<lambda>t. t_id t = i) (tasks s) of
             [t] \<Rightarrow>
               (Data (patch_task u t),
                s\<lparr>tasks := map (\<lambda>t. if t_id t = i then patch_task u t else t) (tasks s)\<rparr>)
           | _ \<Rightarrow> (Failure no_single_row, s)))"

definition select_project :: "store \<Rightarrow> row_id \<Rightarrow> project response" where
  \<comment> \<open>\<^verbatim>\<open>from('projects').select('*').eq('id', i).single()\<close>\<close>
  "select_project s i =
     (case fault s Projects of
        Some m \<Rightarrow> Failure m
      | None \<Rightarrow>
          (case filter (\<lambda>p. p_id p = i) (projects s) of
             [p] \<Rightarrow> Data p
           | _ \<Rightarrow> Failure no_single_row))"

definition select_project_tasks ::
  "store \<Rightarrow> row_id \<Rightarrow> (task_status \<times> priority_level \<times> string option) list response" where
  \<comment> \<open>\<^verbatim>\<open>from('tasks').select('status, priority, assigned_team').eq('project_id', i)\<close>\<close>
  "select_project_tasks s i =
     (case fault s Tasks of
        Some m \<Rightarrow> Failure m
      | None \<Rightarrow>
          Data (map (\<lambda>t. (t_status t, t_priority t, t_assigned_team t))
                  (filter (\<lambda>t. t_project_id t = i) (tasks s))))"

definition select_recent_activity :: "store \<Rightarrow> row_id \<Rightarrow> nat \<Rightarrow> activity list response" where
  \<comment> \<open>\<^verbatim>\<open>from('activity_log').select('*').eq('project_id', i)
      .order('created_at', { ascending: false }).limit(n)\<close>\<close>
  "select_recent_activity s i n =
     (case fault s Activity_log of
        Some m \<Rightarrow> Failure m
      | None \<Rightarrow>
          Data (take n (sort_key (\<lambda>a. - int (a_created_at a))
                  (filter (\<lambda>a. a_project_id a = Some i) (activity_log s)))))"

definition select_tasks_ordered ::
  "(priority_level \<Rightarrow> nat) \<Rightarrow> store \<Rightarrow> (task \<Rightarrow> bool) \<Rightarrow> task list response" where
  \<comment> \<open>\<^verbatim>\<open>from('tasks').select('*')\<close> with the filters \<open>f\<close>, then
      \<^verbatim>\<open>.order('priority').order('created_at', { ascending: false })\<close>. The store
      compares two priorities as its column type does; \<open>ord\<close> is the position of a
      priority in that order.\<close>
  "select_tasks_ordered ord s f =
     (case fault s Tasks of
        Some m \<Rightarrow> Failure m
      | None \<Rightarrow>
          Data (sort_key (\<lambda>t. (ord (t_priority t), - int (t_created_at t)))
                  (filter f (tasks s))))"

definition priority_rank :: "priority_level \<Rightarrow> nat" where
  \<comment> \<open>Modelled from the spec: the declaration of the priority column's type is not among
      the sources; the spec gives the four-level order critical, high, medium, low, which
      is also the order of \<^verbatim>\<open>PriorityLevel\<close> in \<^verbatim>\<open>supabase.ts\<close>.\<close>
  "priority_rank p = (case p of Critical \<Rightarrow> 0 | High \<Rightarrow> 1 | Medium \<Rightarrow> 2 | Low \<Rightarrow> 3)"

section \<open>The activity recorder\<close>

definition orElse :: "'a option \<Rightarrow> 'a \<Rightarrow> 'a" where
  \<comment> \<open>the operator \<^verbatim>\<open>??\<close>\<close>
  "orElse v d = (case v of None \<Rightarrow> d | Some x \<Rightarrow> x)"

definition field :: "string \<Rightarrow> json option \<Rightarrow> (string \<times> json) list" where
  \<comment> \<open>one property of an object literal; a property that is \<^verbatim>\<open>undefined\<close> is not
      serialised\<close>
  "field k v = (case v of None \<Rightarrow> [] | Some j \<Rightarrow> [(k, j)])"

record log_options =
  o_projectId :: "row_id option"
  o_team :: "string option"
  o_relatedId :: "row_id option"
  o_relatedType :: "string option"

definition js_String :: "js_value \<Rightarrow> string" where
  \<comment> \<open>\<^verbatim>\<open>String(v)\<close>: \<^verbatim>\<open>Error.prototype.toString\<close> for an instance of \<^verbatim>\<open>Error\<close>,
      \<^verbatim>\<open>Object.prototype.toString\<close> for a plain object, whatever its message\<close>
  "js_String v =
     (case v of
        ErrorInstance m \<Rightarrow> (if m = [] then ''Error'' else ''Error: '' @ m)
      | PostgrestErrorObject m \<Rightarrow> ''[object Object]'')"

definition handleError :: "js_value \<Rightarrow> exn" where
  \<comment> \<open>supabase.ts, \<^verbatim>\<open>handleError\<close>: an instance of \<^verbatim>\<open>Error\<close> is thrown as it is, any other
      value as \<^verbatim>\<open>new Error(String(error))\<close>\<close>
  "handleError error =
     (case error of
        ErrorInstance m \<Rightarrow> Error m
      | PostgrestErrorObject m \<Rightarrow> Error (js_String error))"

definition logActivity ::
  "store \<Rightarrow> string \<Rightarrow> string \<Rightarrow> json \<Rightarrow> log_options \<Rightarrow> (exn + unit) \<times> store" where
  \<comment> \<open>supabase.ts, \<^verbatim>\<open>logActivity\<close>; the store overwrites \<open>a_id\<close> and \<open>a_created_at\<close>.
      \<^verbatim>\<open>handleError\<close> is given the \<^verbatim>\<open>error\<close> of the response.\<close>
  "logActivity s agent action details options =
     (case insert_activity s
        \<lparr>a_id = 0,
         a_project_id = o_projectId options,
         a_team = o_team options,
         a_agent = agent,
         a_action = action,
         a_details = details,
         a_related_id = o_relatedId options,
         a_related_type = o_relatedType options,
         a_created_at = 0\<rparr> of
        (Failure m, s') \<Rightarrow> (Inl (handleError (PostgrestErrorObject m)), s')
      | (Data _, s') \<Rightarrow> (Inr (), s'))"

section \<open>Project tools\<close>

definition project_status_name :: "project_status \<Rightarrow> string" where
  "project_status_name st =
     (case st of Planning \<Rightarrow> ''planning'' | Active \<Rightarrow> ''active'' | Paused \<Rightarrow> ''paused''
      | Completed \<Rightarrow> ''completed'' | Archived \<Rightarrow> ''archived'')"

definition ha_project_create ::
  "store \<Rightarrow> string \<Rightarrow> string option \<Rightarrow> string option \<Rightarrow> bool option \<Rightarrow> (exn + project) \<times> store" where
  "ha_project_create s name description template autonomous =
     (let slug = generateSlug name;
          (res, s1) = insert_project s
            \<lparr>p_id = 0,
             p_name = name,
             p_slug = slug,
             p_description = description,
             p_status = Planning,
             p_template = template,
             p_tech_stack = JObj [],
             p_settings = JObj [(''autonomous'', JBool (orElse autonomous False))],
             p_metadata = JObj [],
             p_created_at = 0\<rparr>
      in case res of
           Failure m \<Rightarrow> (Inl (Error (''Failed to create project: '' @ m)), s1)
         | Data d \<Rightarrow>
             (case logActivity s1 ''system'' ''project_created''
                     (JObj (field ''name'' (Some (JStr name)) @
                            field ''template'' (map_option JStr template)))
                     \<lparr>o_projectId = Some (p_id d), o_team = None, o_relatedId = None,
                      o_relatedType = None\<rparr> of
                (Inl e, s2) \<Rightarrow> (Inl e, s2)
              | (Inr _, s2) \<Rightarrow> (Inr d, s2)))"

record project_updates =
  pupd_name :: "string option"
  pupd_description :: "string option"
  pupd_status :: "project_status option"
  pupd_settings :: "json option"

definition project_updates_json :: "project_updates \<Rightarrow> json" where
  "project_updates_json updates =
     JObj (field ''name'' (map_option JStr (pupd_name updates)) @
           field ''description'' (map_option JStr (pupd_description updates)) @
           field ''status'' (map_option (JStr \<circ> project_status_name) (pupd_status updates)) @
           field ''settings'' (pupd_settings updates))"

definition ha_project_update_data :: "project_updates \<Rightarrow> project_patch" where
  \<comment> \<open>the object \<^verbatim>\<open>updateData\<close> that \<^verbatim>\<open>ha_project_update\<close> builds\<close>
  "ha_project_update_data updates =
     (let updateData = no_project_patch;
          updateData =
            (case pupd_name updates of
               Some n \<Rightarrow>
                 if truthy n then updateData\<lparr>v_name := Some n, v_slug := Some (generateSlug n)\<rparr>
                 else updateData
             | None \<Rightarrow> updateData);
          updateData =
            (case pupd_description updates of
               Some d \<Rightarrow> updateData\<lparr>v_description := Some d\<rparr>
             | None \<Rightarrow> updateData);
          updateData =
            (case pupd_status updates of
               Some st \<Rightarrow> updateData\<lparr>v_status := Some st\<rparr>
             | None \<Rightarrow> updateData)
      in case pupd_settings updates of
           Some j \<Rightarrow> updateData\<lparr>v_settings := Some j\<rparr>
         | None \<Rightarrow> updateData)"

definition ha_project_update ::
  "store \<Rightarrow> row_id \<Rightarrow> project_updates \<Rightarrow> (exn + project) \<times> store" where
  "ha_project_update s project_id updates =
     (let updateData = ha_project_update_data updates;
          (res, s1) = update_project s project_id updateData
      in case res of
           Failure m \<Rightarrow> (Inl (Error (''Failed to update project: '' @ m)), s1)
         | Data d \<Rightarrow>
             (case logActivity s1 ''system'' ''project_updated'' (project_updates_json updates)
                     \<lparr>o_projectId = Some project_id, o_team = None, o_relatedId = None,
                      o_relatedType = None\<rparr> of
                (Inl e, s2) \<Rightarrow> (Inl e, s2)
              | (Inr _, s2) \<Rightarrow> (Inr d, s2)))"

section \<open>Task tools\<close>

definition task_status_name :: "task_status \<Rightarrow> string" where
  "task_status_name st =
     (case st of Backlog \<Rightarrow> ''backlog'' | Todo \<Rightarrow> ''todo'' | In_progress \<Rightarrow> ''in_progress''
      | Review \<Rightarrow> ''review'' | Blocked \<Rightarrow> ''blocked'' | Done \<Rightarrow> ''done'')"

record task_create =
  c_project_id :: row_id
  c_title :: string
  c_description :: "string option"
  c_team :: "string option"
  c_agent :: "string option"
  c_priority :: "priority_level option"
  c_parent_id :: "row_id option"
  c_estimated_hours :: "int option"
  c_tags :: "string list option"

definition ha_task_create :: "store \<Rightarrow> task_create \<Rightarrow> (exn + task) \<times> store" where
  "ha_task_create s c =
     (let (res, s1) = insert_task s
            \<lparr>t_id = 0,
             t_project_id = c_project_id c,
             t_parent_id = c_parent_id c,
             t_title = c_title c,
             t_description = c_description c,
             t_status = Backlog,
             t_priority = orElse (c_priority c) Medium,
             t_assigned_team = map_option toLowerCase (c_team c),
             t_assigned_agent = map_option toLowerCase (c_agent c),
             t_estimated_hours = c_estimated_hours c,
             t_actual_hours = None,
             t_started_at = None,
             t_completed_at = None,
             t_blocker_reason = None,
             t_tags = orElse (c_tags c) [],
             t_created_by = Some (orElse (c_agent c) ''system''),
             t_updated_by = None,
             t_created_at = 0\<rparr>
      in case res of
           Failure m \<Rightarrow> (Inl (Error (''Failed to create task: '' @ m)), s1)
         | Data d \<Rightarrow>
             (case logActivity s1 (orElse (c_agent c) ''system'') ''task_created''
                     (JObj (field ''title'' (Some (JStr (c_title c))) @
                            field ''team'' (map_option JStr (c_team c))))
                     \<lparr>o_projectId = Some (c_project_id c), o_team = c_team c,
                      o_relatedId = Some (t_id d), o_relatedType = Some ''task''\<rparr> of
                (Inl e, s2) \<Rightarrow> (Inl e, s2)
              | (Inr _, s2) \<Rightarrow> (Inr d, s2)))"

record task_updates =
  upd_title :: "string option"
  upd_description :: "string option"
  upd_status :: "task_status option"
  upd_priority :: "priority_level option"
  upd_team :: "string option"
  upd_agent :: "string option"
  upd_estimated_hours :: "int option"
  upd_actual_hours :: "int option"

definition ha_task_update_data :: "timestamp \<Rightarrow> string option \<Rightarrow> task_updates \<Rightarrow> task_patch" where
  \<comment> \<open>the object \<^verbatim>\<open>updateData\<close> that \<^verbatim>\<open>ha_task_update\<close> builds; \<open>now\<close> is the instant
      \<^verbatim>\<open>new Date()\<close> reads.\<close>
  "ha_task_update_data now updated_by updates =
     (let updateData = no_task_patch\<lparr>u_updated_by := Some (orElse updated_by ''system'')\<rparr>;
          updateData =
            (case upd_title updates of
               Some x \<Rightarrow> if truthy x then updateData\<lparr>u_title := Some x\<rparr> else updateData
             | None \<Rightarrow> updateData);
          updateData =
            (case upd_description updates of
               Some x \<Rightarrow> updateData\<lparr>u_description := Some x\<rparr>
             | None \<Rightarrow> updateData);
          updateData =
            (case upd_status updates of
               Some st \<Rightarrow>
                 (let updateData = updateData\<lparr>u_status := Some st\<rparr>;
                      updateData =
                        (if st = In_progress then updateData\<lparr>u_started_at := Some now\<rparr>
                         else updateData)
                  in if st = Done then updateData\<lparr>u_completed_at := Some now\<rparr>
                     else updateData)
             | None \<Rightarrow> updateData);
          updateData =
            (case upd_priority updates of
               Some x \<Rightarrow> updateData\<lparr>u_priority := Some x\<rparr>
             | None \<Rightarrow> updateData);
          updateData =
            (case upd_team updates of
               Some x \<Rightarrow>
                 if truthy x then updateData\<lparr>u_assigned_team := Some (toLowerCase x)\<rparr>
                 else updateData
             | None \<Rightarrow> updateData);
          updateData =
            (case upd_agent updates of
               Some x \<Rightarrow>
                 if truthy x then updateData\<lparr>u_assigned_agent := Some (Some (toLowerCase x))\<rparr>
                 else updateData
             | None \<Rightarrow> updateData);
          updateData =
            (case upd_estimated_hours updates of
               Some x \<Rightarrow> updateData\<lparr>u_estimated_hours := Some x\<rparr>
             | None \<Rightarrow> updateData)
      in case upd_actual_hours updates of
           Some x \<Rightarrow> updateData\<lparr>u_actual_hours := Some x\<rparr>
         | None \<Rightarrow> updateData)"

definition ha_task_update ::
  "store \<Rightarrow> timestamp \<Rightarrow> row_id \<Rightarrow> string option \<Rightarrow> task_updates \<Rightarrow> (exn + task) \<times> store" where
  "ha_task_update s now task_id updated_by updates =
     (let updateData = ha_task_update_data now updated_by updates;
          (res, s1) = update_task s task_id updateData
      in case res of
           Failure m \<Rightarrow> (Inl (Error (''Failed to update task: '' @ m)), s1)
         | Data d \<Rightarrow> (Inr d, s1))"

definition ha_task_assign ::
  "store \<Rightarrow> row_id \<Rightarrow> string \<Rightarrow> string option \<Rightarrow> (exn + task) \<times> store" where
  "ha_task_assign s task_id team agent =
     (let (res, s1) = update_task s task_id
            (no_task_patch
               \<lparr>u_assigned_team := Some (toLowerCase team),
                u_assigned_agent := Some (map_option toLowerCase agent),
                u_status := Some Todo,
                u_updated_by := Some (orElse agent ''system'')\<rparr>)
      in case res of
           Failure m \<Rightarrow> (Inl (Error (''Failed to assign task: '' @ m)), s1)
         | Data d \<Rightarrow>
             (case logActivity s1 (orElse agent ''system'') ''task_assigned''
                     (JObj (field ''team'' (Some (JStr team)) @
                            field ''agent'' (map_option JStr agent)))
                     \<lparr>o_projectId = Some (t_project_id d), o_team = Some team,
                      o_relatedId = Some task_id, o_relatedType = Some ''task''\<rparr> of
                (Inl e, s2) \<Rightarrow> (Inl e, s2)
              | (Inr _, s2) \<Rightarrow> (Inr d, s2)))"

definition ha_task_status_data ::
  "timestamp \<Rightarrow> task_status \<Rightarrow> string option \<Rightarrow> string option \<Rightarrow> task_patch" where
  \<comment> \<open>the object \<^verbatim>\<open>updateData\<close> that \<^verbatim>\<open>ha_task_status\<close> builds; \<open>now\<close> is the instant
      \<^verbatim>\<open>new Date()\<close> reads.\<close>
  "ha_task_status_data now status agent notes =
     (let updateData =
            no_task_patch\<lparr>u_status := Some status, u_updated_by := Some (orElse agent ''system'')\<rparr>;
          updateData =
            (if status = In_progress then updateData\<lparr>u_started_at := Some now\<rparr>
             else updateData);
          updateData =
            (if status = Done then updateData\<lparr>u_completed_at := Some now\<rparr>
             else updateData);
          updateData =
            (if status = Blocked \<and> truthy (orElse notes [])
             then updateData\<lparr>u_blocker_reason := Some notes\<rparr>
             else updateData)
      in if status \<noteq> Blocked then updateData\<lparr>u_blocker_reason := Some None\<rparr>
         else updateData)"

definition ha_task_status ::
  "store \<Rightarrow> timestamp \<Rightarrow> row_id \<Rightarrow> task_status \<Rightarrow> string option \<Rightarrow> string option \<Rightarrow>
     (exn + task) \<times> store" where
  "ha_task_status s now task_id status agent notes =
     (let updateData = ha_task_status_data now status agent notes;
          (res, s1) = update_task s task_id updateData
      in case res of
           Failure m \<Rightarrow> (Inl (Error (''Failed to update status: '' @ m)), s1)
         | Data d \<Rightarrow>
             (case logActivity s1 (orElse agent ''system'') (''task_'' @ task_status_name status)
                     (JObj (field ''notes'' (map_option JStr notes)))
                     \<lparr>o_projectId = Some (t_project_id d), o_team = t_assigned_team d,
                      o_relatedId = Some task_id, o_relatedType = Some ''task''\<rparr> of
                (Inl e, s2) \<Rightarrow> (Inl e, s2)
              | (Inr _, s2) \<Rightarrow> (Inr d, s2)))"

definition active_status :: "task_status \<Rightarrow> bool" where
  \<comment> \<open>\<^verbatim>\<open>.in('status', ['backlog', 'todo', 'in_progress', 'review', 'blocked'])\<close>\<close>
  "active_status st = (st \<in> set [Backlog, Todo, In_progress, Review, Blocked])"

definition ha_task_my_tasks ::
  "(priority_level \<Rightarrow> nat) \<Rightarrow> store \<Rightarrow> string \<Rightarrow> bool option \<Rightarrow> exn + task list" where
  "ha_task_my_tasks ord s agent include_done =
     (case select_tasks_ordered ord s
             (\<lambda>t. t_assigned_agent t = Some (toLowerCase agent) \<and>
                   (if orElse include_done False then True else active_status (t_status t))) of
        Failure m \<Rightarrow> Inl (Error (''Failed to get tasks: '' @ m))
      | Data d \<Rightarrow> Inr d)"

definition ha_task_team_tasks ::
  "(priority_level \<Rightarrow> nat) \<Rightarrow> store \<Rightarrow> string \<Rightarrow> bool option \<Rightarrow> exn + task list" where
  "ha_task_team_tasks ord s team include_done =
     (case select_tasks_ordered ord s
             (\<lambda>t. t_assigned_team t = Some (toLowerCase team) \<and>
                   (if orElse include_done False then True else active_status (t_status t))) of
        Failure m \<Rightarrow> Inl (Error (''Failed to get team tasks: '' @ m))
      | Data d \<Rightarrow> Inr d)"

section \<open>Status tools\<close>

datatype tally = Count nat | Text

text \<open>
  The value of a key of \<^verbatim>\<open>teamCounts\<close>: a number, or \<open>Text\<close> for a string. The handler starts
  from \<^verbatim>\<open>{}\<close>, which inherits the properties of \<^verbatim>\<open>Object.prototype\<close>: for a team named
  like one of them, \<^verbatim>\<open>acc[k] ?? 0\<close> is the inherited function and \<^verbatim>\<open>+ 1\<close> appends to its text.
  The characters of such a string are the engine's and are left out.
\<close>

record dashboard =
  d_project :: project
  d_total :: nat
  d_by_status :: "(task_status \<times> nat) list"
  d_by_team :: "(string \<times> tally) list"
  d_recent_activity :: "activity list"

definition bump :: "task_status \<Rightarrow> (task_status \<times> nat) list \<Rightarrow> (task_status \<times> nat) list" where
  \<comment> \<open>\<^verbatim>\<open>acc[t.status] = (acc[t.status] ?? 0) + 1\<close>. The key is one of the six names of a status:
      none is a property of \<^verbatim>\<open>Object.prototype\<close> and none is an array index, so the keys
      are listed in the order they were first written.\<close>
  "bump k acc = AList.update k (orElse (map_of acc k) 0 + 1) acc"

definition object_prototype_names :: "string list" where
  "object_prototype_names =
     [''constructor'', ''__defineGetter__'', ''__defineSetter__'', ''hasOwnProperty'',
      ''__lookupGetter__'', ''__lookupSetter__'', ''isPrototypeOf'', ''propertyIsEnumerable'',
      ''toString'', ''valueOf'', ''__proto__'', ''toLocaleString'']"

definition bump_team :: "string \<Rightarrow> (string \<times> tally) list \<Rightarrow> (string \<times> tally) list" where
  \<comment> \<open>\<^verbatim>\<open>acc[k] = (acc[k] ?? 0) + 1\<close> for any string \<open>k\<close>; the list holds the own properties of
      \<^verbatim>\<open>acc\<close> in the order they were created. An assignment to \<^verbatim>\<open>__proto__\<close> calls the setter
      of \<^verbatim>\<open>Object.prototype\<close>, which ignores a string.\<close>
  "bump_team k acc =
     (case map_of acc k of
        Some (Count n) \<Rightarrow> AList.update k (Count (n + 1)) acc
      | Some Text \<Rightarrow> AList.update k Text acc
      | None \<Rightarrow>
          if k = ''__proto__'' then acc
          else if k \<in> set object_prototype_names then AList.update k Text acc
          else AList.update k (Count 1) acc)"

definition array_index :: "string \<Rightarrow> int option" where
  \<comment> \<open>the number a key stands for when it is an array index: a canonical decimal numeral
      below \<open>2\<^sup>3\<^sup>2 - 1\<close>\<close>
  "array_index k =
     (let n = foldl (\<lambda>n c. 10 * n + (of_char c - 48)) (0 :: int) k
      in if k \<noteq> [] \<and> list_all isDigit k \<and> (length k = 1 \<or> hd k \<noteq> CHR ''0'') \<and>
            n < 4294967295
         then Some n else None)"

definition own_property_order :: "(string \<times> 'v) list \<Rightarrow> (string \<times> 'v) list" where
  \<comment> \<open>the order in which \<^verbatim>\<open>JSON.stringify\<close> lists the own properties of an object: array
      indices ascending, then the other keys in the order they were created\<close>
  "own_property_order acc =
     sort_key (\<lambda>(k, v). orElse (array_index k) 0)
       (filter (\<lambda>(k, v). array_index k \<noteq> None) acc) @
     filter (\<lambda>(k, v). array_index k = None) acc"

definition ha_status_project :: "store \<Rightarrow> row_id \<Rightarrow> exn + dashboard" where
  \<comment> \<open>The three requests only read, so the order in which \<^verbatim>\<open>Promise.all\<close> runs them
      does not matter; each resolves to a response.\<close>
  "ha_status_project s project_id =
     (let projectRes = select_project s project_id;
          tasksRes = select_project_tasks s project_id;
          activityRes = select_recent_activity s project_id 10
      in case projectRes of
           Failure m \<Rightarrow> Inl (Error (''Project not found: '' @ m))
         | Data p \<Rightarrow>
             (let tasks = (case tasksRes of Data d \<Rightarrow> d | Failure _ \<Rightarrow> []);
                  statusCounts = foldl (\<lambda>acc (st, pr, tm). bump st acc) [] tasks;
                  teamCounts =
                    foldl (\<lambda>acc (st, pr, tm).
                             case tm of
                               Some x \<Rightarrow> if truthy x then bump_team x acc else acc
                             | None \<Rightarrow> acc) [] tasks
              in Inr \<lparr>d_project = p,
                      d_total = length tasks,
                      d_by_status = statusCounts,
                      d_by_team = own_property_order teamCounts,
                      d_recent_activity =
                        (case activityRes of Data d \<Rightarrow> d | Failure _ \<Rightarrow> [])\<rparr>))"

section \<open>Reading a store and a result\<close>

definition task_row :: "store \<Rightarrow> row_id \<Rightarrow> task option" where
  \<comment> \<open>the task with the primary key \<open>i\<close>\<close>
  "task_row s i = (case filter (\<lambda>t. t_id t = i) (tasks s) of [t] \<Rightarrow> Some t | _ \<Rightarrow> None)"

definition project_row :: "store \<Rightarrow> row_id \<Rightarrow> project option" where
  \<comment> \<open>the project with the primary key \<open>i\<close>\<close>
  "project_row s i = (case filter (\<lambda>p. p_id p = i) (projects s) of [p] \<Rightarrow> Some p | _ \<Rightarrow> None)"

definition returned :: "(exn + 'a) \<times> store \<Rightarrow> 'a option" where
  \<comment> \<open>the row a call returns; \<open>None\<close> when it throws\<close>
  "returned r = (case fst r of Inl e \<Rightarrow> None | Inr d \<Rightarrow> Some d)"

definition log_works :: "store \<Rightarrow> store" where
  \<comment> \<open>the same store, without a fault of the activity log\<close>
  "log_works s = s\<lparr>fault := (fault s)(Activity_log := None)\<rparr>"

definition no_task_updates :: task_updates where
  \<comment> \<open>a call of \<^verbatim>\<open>ha_task_update\<close> with no optional argument\<close>
  "no_task_updates =
     \<lparr>upd_title = None, upd_description = None, upd_status = None, upd_priority = None,
      upd_team = None, upd_agent = None, upd_estimated_hours = None, upd_actual_hours = None\<rparr>"

definition priority_before :: "priority_level \<Rightarrow> priority_level \<Rightarrow> bool" where
  \<comment> \<open>critical < high < medium < low\<close>
  "priority_before a b =
     ((a, b) \<in> set [(Critical, High), (Critical, Medium), (Critical, Low),
                    (High, Medium), (High, Low), (Medium, Low)])"

definition listed_before :: "task \<Rightarrow> task \<Rightarrow> bool" where
  \<comment> \<open>priority ascending, then creation time descending\<close>
  "listed_before a b =
     (priority_before (t_priority a) (t_priority b) \<or>
      (t_priority a = t_priority b \<and> t_created_at b \<le> t_created_at a))"

section \<open>A store to run the handlers on\<close>

definition example_project :: project where
  "example_project =
     \<lparr>p_id = 0, p_name = ''Acme Launch'', p_slug = ''acme-launch'', p_description = None,
      p_status = Planning, p_template = None, p_tech_stack = JObj [],
      p_settings = JObj [(''autonomous'', JBool False)], p_metadata = JObj [],
      p_created_at = 1\<rparr>"

definition example_task :: task where
  "example_task =
     \<lparr>t_id = 1, t_project_id = 0, t_parent_id = None, t_title = ''Design homepage'',
      t_description = None, t_status = Todo, t_priority = Medium,
      t_assigned_team = Some ''pixelcraft'', t_assigned_agent = Some ''ava'',
      t_estimated_hours = None, t_actual_hours = None, t_started_at = None,
      t_completed_at = None, t_blocker_reason = None, t_tags = [],
      t_created_by = Some ''system'', t_updated_by = Some ''ava'', t_created_at = 2\<rparr>"

definition example_store :: store where
  "example_store =
     \<lparr>projects = [example_project], tasks = [example_task], activity_log = [],
      next_id = 2, db_now = 3, fault = (\<lambda>tbl. None)\<rparr>"

definition blocked_store :: store where
  \<comment> \<open>the example after \<^verbatim>\<open>ha_task_status\<close> has blocked its task\<close>
  "blocked_store =
     snd (ha_task_status example_store 5 1 Blocked (Some ''ava'') (Some ''waiting on assets''))"

definition started_store :: store where
  \<comment> \<open>the example after \<^verbatim>\<open>ha_task_status\<close> has started its task at the instant 5\<close>
  "started_store =
     snd (ha_task_status example_store 5 1 In_progress (Some ''ava'') None)"

definition started_task :: task where
  "started_task = example_task\<lparr>t_status := In_progress, t_started_at := Some 5\<rparr>"

definition blocked_task :: task where
  "blocked_task =
     example_task\<lparr>t_status := Blocked, t_blocker_reason := Some ''waiting on assets''\<rparr>"

definition fetch_fault_store :: store where
  \<comment> \<open>the blocked example, while requests to the tasks and to the activity log fail\<close>
  "fetch_fault_store =
     blocked_store\<lparr>fault := (\<lambda>tbl. None)(Tasks := Some ''connection reset'',
                                          Activity_log := Some ''connection reset'')\<rparr>"

definition log_fault_store :: store where
  \<comment> \<open>the example, while requests to the activity log fail\<close>
  "log_fault_store =
     example_store\<lparr>fault := (\<lambda>tbl. None)(Activity_log := Some ''connection reset'')\<rparr>"

definition example_create :: task_create where
  "example_create =
     \<lparr>c_project_id = 0, c_title = ''Write copy'', c_description = None,
      c_team = Some ''WordSmiths'', c_agent = None, c_priority = None, c_parent_id = None,
      c_estimated_hours = None, c_tags = None\<rparr>"

definition example_updates :: project_updates where
  "example_updates =
     \<lparr>pupd_name = Some ''Acme Relaunch'', pupd_description = None, pupd_status = Some Active,
      pupd_settings = None\<rparr>"

definition backlog_store :: store where
  \<comment> \<open>four tasks of one agent and one team, of mixed priorities and ages\<close>
  "backlog_store =
     example_store
       \<lparr>tasks :=
          [example_task,
           example_task\<lparr>t_id := 2, t_priority := Low, t_created_at := 3\<rparr>,
           example_task\<lparr>t_id := 3, t_priority := Critical, t_created_at := 4\<rparr>,
           example_task\<lparr>t_id := 4, t_priority := Medium, t_created_at := 5\<rparr>,
           example_task\<lparr>t_id := 5, t_priority := High, t_created_at := 6\<rparr>]\<rparr>"

definition restarted_task :: task where
  \<comment> \<open>the started task after a second start at the instant 9\<close>
  "restarted_task = started_task\<lparr>t_started_at := Some 9\<rparr>"

definition reassigned_task :: task where
  \<comment> \<open>the example task after \<^verbatim>\<open>ha_task_assign\<close> with the team DevForge and no agent\<close>
  "reassigned_task =
     example_task\<lparr>t_assigned_team := Some ''devforge'', t_assigned_agent := None,
                  t_updated_by := Some ''system''\<rparr>"

section \<open>The slug utility\<close>

lemma slugChar_not_space: "slugChar c \<Longrightarrow> \<not> isSpace c"
  by (auto simp: slugChar_def isLower_def isDigit_def isHyphen_def isSpace_def)

lemma slugChar_kept: "slugChar c \<Longrightarrow> keptChar c"
  by (auto simp: slugChar_def keptChar_def)

lemma slugChar_lower: "slugChar c \<Longrightarrow> lowerChar c = c"
  by (auto simp: slugChar_def isLower_def isDigit_def isHyphen_def lowerChar_def Let_def)

lemma kept_slug: "keptChar c \<Longrightarrow> \<not> isSpace c \<Longrightarrow> slugChar c"
  by (auto simp: slugChar_def keptChar_def)

lemma slugChar_hyphen: "slugChar CHR ''-''"
  by (simp add: slugChar_def isHyphen_def)

lemma replaceRuns_set:
  "set (replaceRuns P r s) \<subseteq> set r \<union> {c \<in> set s. \<not> P c}"
proof (induction P r s rule: replaceRuns.induct)
  case (1 P r)
  show ?case by simp
next
  case (2 P r c cs)
  show ?case
  proof (cases "P c")
    case True
    with 2 have "set (replaceRuns P r (dropWhile P cs)) \<subseteq> set r \<union> {c \<in> set (dropWhile P cs). \<not> P c}"
      by simp
    moreover have "set (dropWhile P cs) \<subseteq> set cs"
      by (auto dest: set_dropWhileD)
    ultimately show ?thesis using True by auto
  next
    case False
    with 2 show ?thesis by auto
  qed
qed

lemma replaceRuns_id: "\<forall>c \<in> set s. \<not> P c \<Longrightarrow> replaceRuns P r s = s"
  by (induction s) auto

lemma replaceRuns_hyphen_id:
  "noHyphenPair s \<Longrightarrow> replaceRuns isHyphen ''-'' s = s"
proof (induction s rule: noHyphenPair.induct)
  case 1
  show ?case by simp
next
  case (2 a)
  show ?case by (simp add: isHyphen_def)
next
  case (3 a b cs)
  then show ?case by (auto simp: isHyphen_def)
qed

lemma replaceRuns_hyphen_head:
  "s \<noteq> [] \<Longrightarrow> \<not> isHyphen (hd s) \<Longrightarrow>
     replaceRuns isHyphen ''-'' s \<noteq> [] \<and> \<not> isHyphen (hd (replaceRuns isHyphen ''-'' s))"
  by (cases s) auto

lemma noHyphenPair_Cons:
  "noHyphenPair (a # s) = ((s = [] \<or> \<not> isHyphen a \<or> \<not> isHyphen (hd s)) \<and> noHyphenPair s)"
  by (cases s) auto

lemma replaceRuns_noHyphenPair: "noHyphenPair (replaceRuns isHyphen ''-'' s)"
proof (induction "isHyphen" "''-''" s rule: replaceRuns.induct)
  case 1
  show ?case by simp
next
  case (2 c cs)
  show ?case
  proof (cases "isHyphen c")
    case True
    let ?d = "dropWhile isHyphen cs"
    have ih: "noHyphenPair (replaceRuns isHyphen ''-'' ?d)"
      using 2 True by simp
    have "replaceRuns isHyphen ''-'' ?d = [] \<or> \<not> isHyphen (hd (replaceRuns isHyphen ''-'' ?d))"
    proof (cases "?d = []")
      case True
      show ?thesis unfolding True by simp
    next
      case False
      then have "\<not> isHyphen (hd ?d)" by (rule hd_dropWhile)
      with False show ?thesis using replaceRuns_hyphen_head [of ?d] by blast
    qed
    with ih True show ?thesis
      by (simp add: noHyphenPair_Cons)
  next
    case False
    with 2 have ih: "noHyphenPair (replaceRuns isHyphen ''-'' cs)" by simp
    with False show ?thesis by (simp add: noHyphenPair_Cons)
  qed
qed

lemma trim_id: "\<forall>c \<in> set s. \<not> isSpace c \<Longrightarrow> trim s = s"
proof -
  assume a: "\<forall>c \<in> set s. \<not> isSpace c"
  then have "dropWhile isSpace s = s"
    by (cases s) auto
  moreover from a have "dropWhile isSpace (rev s) = rev s"
    by (cases "rev s") (auto simp: dropWhile_eq_self_iff dest: arg_cong [where f = set])
  ultimately show ?thesis by (simp add: trim_def)
qed

lemma replaceRuns_hyphen_chars:
  assumes "\<forall>c \<in> set s. \<not> P c \<longrightarrow> slugChar c"
  shows "\<forall>c \<in> set (replaceRuns P ''-'' s). slugChar c"
proof
  fix c assume "c \<in> set (replaceRuns P ''-'' s)"
  then have "c \<in> set ''-'' \<union> {c \<in> set s. \<not> P c}"
    using replaceRuns_set [of P "''-''" s] by (rule subsetD [rotated])
  then have "c = CHR ''-'' \<or> (c \<in> set s \<and> \<not> P c)"
    by simp
  then show "slugChar c"
    using assms slugChar_hyphen by blast
qed

lemma slug_body_chars:
  "\<forall>c \<in> set (replaceRuns isHyphen ''-'' (replaceRuns isSpace ''-''
      (filter keptChar (toLowerCase name)))). slugChar c"
proof -
  let ?a = "filter keptChar (toLowerCase name)"
  have "\<forall>c \<in> set ?a. \<not> isSpace c \<longrightarrow> slugChar c"
    by (simp add: kept_slug)
  then have "\<forall>c \<in> set (replaceRuns isSpace ''-'' ?a). slugChar c"
    by (rule replaceRuns_hyphen_chars)
  then have "\<forall>c \<in> set (replaceRuns isSpace ''-'' ?a). \<not> isHyphen c \<longrightarrow> slugChar c"
    by blast
  then show ?thesis
    by (rule replaceRuns_hyphen_chars)
qed

lemma generateSlug_untrimmed:
  "generateSlug name = replaceRuns isHyphen ''-'' (replaceRuns isSpace ''-''
      (filter keptChar (toLowerCase name)))"
proof -
  have "\<forall>c \<in> set (replaceRuns isHyphen ''-'' (replaceRuns isSpace ''-''
      (filter keptChar (toLowerCase name)))). \<not> isSpace c"
    using slug_body_chars [of name] slugChar_not_space by blast
  then show ?thesis
    unfolding generateSlug_def by (rule trim_id)
qed

lemma generateSlug_chars: "\<forall>c \<in> set (generateSlug name). slugChar c"
  unfolding generateSlug_untrimmed by (rule slug_body_chars)

lemma generateSlug_noHyphenPair: "noHyphenPair (generateSlug name)"
  unfolding generateSlug_untrimmed by (rule replaceRuns_noHyphenPair)

lemma generateSlug_fixed:
  assumes "\<forall>c \<in> set s. slugChar c" and "noHyphenPair s"
  shows "generateSlug s = s"
proof -
  have 1: "toLowerCase s = s"
    using assms(1) by (simp add: toLowerCase_def map_idI slugChar_lower)
  have 2: "filter keptChar s = s"
    using assms(1) by (simp add: slugChar_kept)
  have 3: "replaceRuns isSpace ''-'' s = s"
    using assms(1) by (intro replaceRuns_id) (auto dest: slugChar_not_space)
  have 4: "replaceRuns isHyphen ''-'' s = s"
    using assms(2) by (rule replaceRuns_hyphen_id)
  have 5: "trim s = s"
    using assms(1) by (intro trim_id) (auto dest: slugChar_not_space)
  show ?thesis by (simp add: generateSlug_def 1 2 3 4 5)
qed

text \<open>
  C6. \<^verbatim>\<open>generateSlug\<close> is a function of its argument alone, and applying it to its own
  result changes nothing: for every string \<open>x\<close>, the slug of the slug of \<open>x\<close> is the slug
  of \<open>x\<close>.
\<close>

theorem generateSlug_idempotent: "generateSlug (generateSlug x) = generateSlug x"
  by (rule generateSlug_fixed) (rule generateSlug_chars, rule generateSlug_noHyphenPair)

section \<open>Requests to the store\<close>

lemma patch_task_id: "t_id (patch_task u t) = t_id t"
  by (simp add: patch_task_def)

lemma patch_project_id: "p_id (patch_project v p) = p_id p"
  by (simp add: patch_project_def)

lemma filter_map_patch_task:
  "filter (\<lambda>t. t_id t = i) (map (\<lambda>x. if t_id x = i then patch_task u x else x) ts)
     = map (patch_task u) (filter (\<lambda>t. t_id t = i) ts)"
  by (induction ts) (auto simp: patch_task_id)

lemma filter_map_patch_project:
  "filter (\<lambda>p. p_id p = i) (map (\<lambda>x. if p_id x = i then patch_project v x else x) ps)
     = map (patch_project v) (filter (\<lambda>p. p_id p = i) ps)"
  by (induction ps) (auto simp: patch_project_id)

lemma task_row_id: "task_row s i = Some t \<Longrightarrow> t_id t = i"
proof -
  assume "task_row s i = Some t"
  then have "filter (\<lambda>t. t_id t = i) (tasks s) = [t]"
    by (auto simp: task_row_def split: list.splits)
  then have "t \<in> set (filter (\<lambda>t. t_id t = i) (tasks s))"
    by simp
  then show ?thesis by simp
qed

lemma project_row_id: "project_row s i = Some p \<Longrightarrow> p_id p = i"
proof -
  assume "project_row s i = Some p"
  then have "filter (\<lambda>p. p_id p = i) (projects s) = [p]"
    by (auto simp: project_row_def split: list.splits)
  then have "p \<in> set (filter (\<lambda>p. p_id p = i) (projects s))"
    by simp
  then show ?thesis by simp
qed

lemma task_row_cong: "tasks s' = tasks s \<Longrightarrow> task_row s' i = task_row s i"
  by (simp add: task_row_def)

lemma project_row_cong: "projects s' = projects s \<Longrightarrow> project_row s' i = project_row s i"
  by (simp add: project_row_def)

lemma update_task_DataD:
  "update_task s i u = (Data d, s') \<Longrightarrow>
     fault s Tasks = None \<and> (\<exists>t. task_row s i = Some t \<and> d = patch_task u t) \<and>
     s' = s\<lparr>tasks := map (\<lambda>x. if t_id x = i then patch_task u x else x) (tasks s)\<rparr>"
  by (auto simp: update_task_def task_row_def split: list.splits option.splits)

lemma update_task_row:
  assumes "update_task s i u = (Data d, s')"
  shows "task_row s' i = Some d"
proof -
  from assms obtain t where t: "task_row s i = Some t" "d = patch_task u t"
    and s': "s' = s\<lparr>tasks := map (\<lambda>x. if t_id x = i then patch_task u x else x) (tasks s)\<rparr>"
    by (blast dest: update_task_DataD)
  from t(1) have "filter (\<lambda>t. t_id t = i) (tasks s) = [t]"
    by (auto simp: task_row_def split: list.splits)
  then show ?thesis
    by (simp add: s' t(2) task_row_def filter_map_patch_task)
qed

lemma update_project_DataD:
  "update_project s i v = (Data d, s') \<Longrightarrow>
     fault s Projects = None \<and> (\<exists>p. project_row s i = Some p \<and> d = patch_project v p) \<and>
     s' = s\<lparr>projects := map (\<lambda>x. if p_id x = i then patch_project v x else x) (projects s)\<rparr>"
  by (auto simp: update_project_def project_row_def split: list.splits option.splits)

lemma update_project_row:
  assumes "update_project s i v = (Data d, s')"
  shows "project_row s' i = Some d"
proof -
  from assms obtain p where p: "project_row s i = Some p" "d = patch_project v p"
    and s': "s' = s\<lparr>projects := map (\<lambda>x. if p_id x = i then patch_project v x else x) (projects s)\<rparr>"
    by (blast dest: update_project_DataD)
  from p(1) have "filter (\<lambda>p. p_id p = i) (projects s) = [p]"
    by (auto simp: project_row_def split: list.splits)
  then show ?thesis
    by (simp add: s' p(2) project_row_def filter_map_patch_project)
qed

lemma insert_project_DataD:
  "insert_project s row = (Data d, s') \<Longrightarrow>
     fault s Projects = None \<and> d = row\<lparr>p_id := next_id s, p_created_at := db_now s\<rparr> \<and>
     s' = s\<lparr>projects := projects s @ [d], next_id := Suc (next_id s)\<rparr>"
  by (auto simp: insert_project_def Let_def split: option.splits)

lemma insert_task_DataD:
  "insert_task s row = (Data d, s') \<Longrightarrow>
     fault s Tasks = None \<and> d = row\<lparr>t_id := next_id s, t_created_at := db_now s\<rparr> \<and>
     s' = s\<lparr>tasks := tasks s @ [d], next_id := Suc (next_id s)\<rparr>"
  by (auto simp: insert_task_def Let_def split: option.splits)

lemma logActivity_InrD:
  "logActivity s agent action details options = (Inr x, s') \<Longrightarrow>
     s' = s\<lparr>activity_log := activity_log s @
             [\<lparr>a_id = next_id s, a_project_id = o_projectId options, a_team = o_team options,
               a_agent = agent, a_action = action, a_details = details,
               a_related_id = o_relatedId options, a_related_type = o_relatedType options,
               a_created_at = db_now s\<rparr>],
            next_id := Suc (next_id s)\<rparr>"
  by (auto simp: logActivity_def insert_activity_def split: option.splits)

lemma logActivity_fail:
  "fault s Activity_log = Some m \<Longrightarrow>
     logActivity s agent action details options = (Inl (Error ''[object Object]''), s)"
  by (simp add: logActivity_def insert_activity_def handleError_def js_String_def)

lemma update_task_then:
  assumes "update_task s i u = (Data d, s1)"
  shows "(\<exists>t. task_row s i = Some t \<and> d = patch_task u t) \<and> task_row s1 i = Some d \<and>
         projects s1 = projects s \<and> activity_log s1 = activity_log s"
  using update_task_DataD [OF assms] update_task_row [OF assms] by auto

lemma update_project_then:
  assumes "update_project s i v = (Data d, s1)"
  shows "(\<exists>p. project_row s i = Some p \<and> d = patch_project v p) \<and> project_row s1 i = Some d \<and>
         tasks s1 = tasks s \<and> activity_log s1 = activity_log s"
  using update_project_DataD [OF assms] update_project_row [OF assms] by auto

lemma logged_InrD:
  assumes "(case logActivity s1 agent action details options of
              (Inl e, s2) \<Rightarrow> (Inl e, s2)
            | (Inr x, s2) \<Rightarrow> (Inr d, s2)) = (Inr d', s')"
  shows "d' = d \<and> tasks s' = tasks s1 \<and> projects s' = projects s1 \<and>
         (\<exists>a. activity_log s' = activity_log s1 @ [a] \<and>
              a_project_id a = o_projectId options \<and> a_team a = o_team options \<and>
              a_related_id a = o_relatedId options \<and> a_related_type a = o_relatedType options \<and>
              a_agent a = agent \<and> a_action a = action \<and> a_details a = details)"
proof -
  obtain r s2 where l: "logActivity s1 agent action details options = (r, s2)"
    by (cases "logActivity s1 agent action details options")
  show ?thesis
  proof (cases r)
    case (Inl e)
    with assms l show ?thesis by simp
  next
    case (Inr x)
    with assms l have "d' = d" "s' = s2" by simp_all
    moreover from l Inr have "s2 = s1\<lparr>activity_log := activity_log s1 @
             [\<lparr>a_id = next_id s1, a_project_id = o_projectId options, a_team = o_team options,
               a_agent = agent, a_action = action, a_details = details,
               a_related_id = o_relatedId options, a_related_type = o_relatedType options,
               a_created_at = db_now s1\<rparr>],
            next_id := Suc (next_id s1)\<rparr>"
      by (simp add: logActivity_InrD)
    ultimately show ?thesis by simp
  qed
qed

section \<open>The objects the handlers send\<close>

lemma patch_task_fields:
  "t_status (patch_task u t) = patched (u_status u) (t_status t)"
  "t_started_at (patch_task u t) = patched (map_option Some (u_started_at u)) (t_started_at t)"
  "t_completed_at (patch_task u t) = patched (map_option Some (u_completed_at u)) (t_completed_at t)"
  "t_blocker_reason (patch_task u t) = patched (u_blocker_reason u) (t_blocker_reason t)"
  "t_updated_by (patch_task u t) = patched (map_option Some (u_updated_by u)) (t_updated_by t)"
  "t_assigned_team (patch_task u t) = patched (map_option Some (u_assigned_team u)) (t_assigned_team t)"
  "t_assigned_agent (patch_task u t) = patched (u_assigned_agent u) (t_assigned_agent t)"
  "t_project_id (patch_task u t) = t_project_id t"
  by (simp_all add: patch_task_def)

lemma ha_task_status_data_fields:
  "u_status (ha_task_status_data now st agent notes) = Some st"
  "u_started_at (ha_task_status_data now st agent notes) =
     (if st = In_progress then Some now else None)"
  "u_completed_at (ha_task_status_data now st agent notes) =
     (if st = Done then Some now else None)"
  "u_blocker_reason (ha_task_status_data now st agent notes) =
     (if st = Blocked then (if truthy (orElse notes []) then Some notes else None)
      else Some None)"
  "u_updated_by (ha_task_status_data now st agent notes) = Some (orElse agent ''system'')"
  by (simp_all add: ha_task_status_data_def Let_def no_task_patch_def)

lemma ha_task_update_data_fields:
  "u_status (ha_task_update_data now by updates) = upd_status updates"
  "u_started_at (ha_task_update_data now by updates) =
     (if upd_status updates = Some In_progress then Some now else None)"
  "u_completed_at (ha_task_update_data now by updates) =
     (if upd_status updates = Some Done then Some now else None)"
  "u_blocker_reason (ha_task_update_data now by updates) = None"
  "u_updated_by (ha_task_update_data now by updates) = Some (orElse by ''system'')"
  by (simp_all add: ha_task_update_data_def Let_def no_task_patch_def split: option.splits)

section \<open>What a successful call has done\<close>

lemma ha_task_status_InrD:
  assumes "ha_task_status s now i st agent notes = (Inr d, s')"
  shows "(\<exists>t. task_row s i = Some t \<and> d = patch_task (ha_task_status_data now st agent notes) t) \<and>
         task_row s' i = Some d \<and> projects s' = projects s \<and>
         (\<exists>a. activity_log s' = activity_log s @ [a] \<and>
              a_project_id a = Some (t_project_id d) \<and> a_team a = t_assigned_team d \<and>
              a_related_id a = Some i \<and> a_related_type a = Some ''task'' \<and>
              a_agent a = orElse agent ''system'' \<and>
              a_action a = ''task_'' @ task_status_name st)"
proof -
  let ?u = "ha_task_status_data now st agent notes"
  obtain res s1 where w: "update_task s i ?u = (res, s1)"
    by (cases "update_task s i ?u")
  show ?thesis
  proof (cases res)
    case (Failure m)
    with assms w show ?thesis by (simp add: ha_task_status_def)
  next
    case (Data d0)
    with assms w have l: "(case logActivity s1 (orElse agent ''system'')
          (''task_'' @ task_status_name st) (JObj (field ''notes'' (map_option JStr notes)))
          \<lparr>o_projectId = Some (t_project_id d0), o_team = t_assigned_team d0,
           o_relatedId = Some i, o_relatedType = Some ''task''\<rparr> of
        (Inl e, s2) \<Rightarrow> (Inl e, s2) | (Inr x, s2) \<Rightarrow> (Inr d0, s2)) = (Inr d, s')"
      by (simp add: ha_task_status_def)
    note a = logged_InrD [OF l]
    from w Data have b: "(\<exists>t. task_row s i = Some t \<and> d0 = patch_task ?u t) \<and>
        task_row s1 i = Some d0 \<and> projects s1 = projects s \<and> activity_log s1 = activity_log s"
      by (intro update_task_then) simp
    from a b have "task_row s' i = Some d"
      by (simp add: task_row_cong [of s' s1])
    with a b show ?thesis by auto
  qed
qed

lemma ha_task_assign_InrD:
  assumes "ha_task_assign s i team agent = (Inr d, s')"
  shows "(\<exists>t. task_row s i = Some t \<and>
              d = patch_task (no_task_patch
                    \<lparr>u_assigned_team := Some (toLowerCase team),
                     u_assigned_agent := Some (map_option toLowerCase agent),
                     u_status := Some Todo,
                     u_updated_by := Some (orElse agent ''system'')\<rparr>) t) \<and>
         task_row s' i = Some d \<and> projects s' = projects s \<and>
         (\<exists>a. activity_log s' = activity_log s @ [a] \<and>
              a_project_id a = Some (t_project_id d) \<and> a_team a = Some team \<and>
              a_related_id a = Some i \<and> a_related_type a = Some ''task'' \<and>
              a_agent a = orElse agent ''system'' \<and> a_action a = ''task_assigned'')"
proof -
  let ?u = "no_task_patch
                    \<lparr>u_assigned_team := Some (toLowerCase team),
                     u_assigned_agent := Some (map_option toLowerCase agent),
                     u_status := Some Todo,
                     u_updated_by := Some (orElse agent ''system'')\<rparr>"
  obtain res s1 where w: "update_task s i ?u = (res, s1)"
    by (cases "update_task s i ?u")
  show ?thesis
  proof (cases res)
    case (Failure m)
    with assms w show ?thesis by (simp add: ha_task_assign_def)
  next
    case (Data d0)
    with assms w have l: "(case logActivity s1 (orElse agent ''system'') ''task_assigned''
          (JObj (field ''team'' (Some (JStr team)) @ field ''agent'' (map_option JStr agent)))
          \<lparr>o_projectId = Some (t_project_id d0), o_team = Some team,
           o_relatedId = Some i, o_relatedType = Some ''task''\<rparr> of
        (Inl e, s2) \<Rightarrow> (Inl e, s2) | (Inr x, s2) \<Rightarrow> (Inr d0, s2)) = (Inr d, s')"
      by (simp add: ha_task_assign_def)
    note a = logged_InrD [OF l]
    from w Data have b: "(\<exists>t. task_row s i = Some t \<and> d0 = patch_task ?u t) \<and>
        task_row s1 i = Some d0 \<and> projects s1 = projects s \<and> activity_log s1 = activity_log s"
      by (intro update_task_then) simp
    from a b have "task_row s' i = Some d"
      by (simp add: task_row_cong [of s' s1])
    with a b show ?thesis by auto
  qed
qed

lemma ha_task_update_InrD:
  assumes "ha_task_update s now i by updates = (Inr d, s')"
  shows "(\<exists>t. task_row s i = Some t \<and> d = patch_task (ha_task_update_data now by updates) t) \<and>
         task_row s' i = Some d \<and> projects s' = projects s \<and> activity_log s' = activity_log s"
proof -
  let ?u = "ha_task_update_data now by updates"
  obtain res s1 where w: "update_task s i ?u = (res, s1)"
    by (cases "update_task s i ?u")
  show ?thesis
  proof (cases res)
    case (Failure m)
    with assms w show ?thesis by (simp add: ha_task_update_def)
  next
    case (Data d0)
    with assms w have "d0 = d" "s1 = s'"
      by (simp_all add: ha_task_update_def)
    with w Data show ?thesis
      by (intro update_task_then) simp
  qed
qed

lemma ha_task_create_InrD:
  assumes "ha_task_create s c = (Inr d, s')"
  shows "t_id d = next_id s \<and> t_project_id d = c_project_id c \<and> t_status d = Backlog \<and>
         t_assigned_team d = map_option toLowerCase (c_team c) \<and>
         tasks s' = tasks s @ [d] \<and> projects s' = projects s \<and>
         (\<exists>a. activity_log s' = activity_log s @ [a] \<and>
              a_project_id a = Some (c_project_id c) \<and> a_team a = c_team c \<and>
              a_related_id a = Some (t_id d) \<and> a_related_type a = Some ''task'' \<and>
              a_agent a = orElse (c_agent c) ''system'' \<and> a_action a = ''task_created'')"
proof -
  obtain row where row: "ha_task_create s c =
      (case insert_task s row of (res, s1) \<Rightarrow>
         (case res of
            Failure m \<Rightarrow> (Inl (Error (''Failed to create task: '' @ m)), s1)
          | Data d \<Rightarrow>
             (case logActivity s1 (orElse (c_agent c) ''system'') ''task_created''
                     (JObj (field ''title'' (Some (JStr (c_title c))) @
                            field ''team'' (map_option JStr (c_team c))))
                     \<lparr>o_projectId = Some (c_project_id c), o_team = c_team c,
                      o_relatedId = Some (t_id d), o_relatedType = Some ''task''\<rparr> of
                (Inl e, s2) \<Rightarrow> (Inl e, s2)
              | (Inr _, s2) \<Rightarrow> (Inr d, s2))))"
    and f: "t_project_id row = c_project_id c" "t_status row = Backlog"
      "t_assigned_team row = map_option toLowerCase (c_team c)"
    by (simp add: ha_task_create_def)
  obtain res s1 where w: "insert_task s row = (res, s1)"
    by (cases "insert_task s row")
  show ?thesis
  proof (cases res)
    case (Failure m)
    with assms w row show ?thesis by simp
  next
    case (Data d0)
    with assms w row have l: "(case logActivity s1 (orElse (c_agent c) ''system'') ''task_created''
                     (JObj (field ''title'' (Some (JStr (c_title c))) @
                            field ''team'' (map_option JStr (c_team c))))
                     \<lparr>o_projectId = Some (c_project_id c), o_team = c_team c,
                      o_relatedId = Some (t_id d0), o_relatedType = Some ''task''\<rparr> of
                (Inl e, s2) \<Rightarrow> (Inl e, s2)
              | (Inr x, s2) \<Rightarrow> (Inr d0, s2)) = (Inr d, s')"
      by simp
    note a = logged_InrD [OF l]
    from w Data have b: "d0 = row\<lparr>t_id := next_id s, t_created_at := db_now s\<rparr>"
      "s1 = s\<lparr>tasks := tasks s @ [d0], next_id := Suc (next_id s)\<rparr>"
      by (auto dest: insert_task_DataD)
    from a b f show ?thesis by auto
  qed
qed

lemma ha_project_create_InrD:
  assumes "ha_project_create s name description template autonomous = (Inr d, s')"
  shows "p_id d = next_id s \<and> p_name d = name \<and> p_slug d = generateSlug name \<and>
         p_status d = Planning \<and>
         projects s' = projects s @ [d] \<and> tasks s' = tasks s \<and>
         (\<exists>a. activity_log s' = activity_log s @ [a] \<and>
              a_project_id a = Some (p_id d) \<and> a_team a = None \<and>
              a_related_id a = None \<and> a_related_type a = None \<and>
              a_agent a = ''system'' \<and> a_action a = ''project_created'')"
proof -
  obtain row where row: "ha_project_create s name description template autonomous =
      (case insert_project s row of (res, s1) \<Rightarrow>
         (case res of
            Failure m \<Rightarrow> (Inl (Error (''Failed to create project: '' @ m)), s1)
          | Data d \<Rightarrow>
             (case logActivity s1 ''system'' ''project_created''
                     (JObj (field ''name'' (Some (JStr name)) @
                            field ''template'' (map_option JStr template)))
                     \<lparr>o_projectId = Some (p_id d), o_team = None, o_relatedId = None,
                      o_relatedType = None\<rparr> of
                (Inl e, s2) \<Rightarrow> (Inl e, s2)
              | (Inr _, s2) \<Rightarrow> (Inr d, s2))))"
    and f: "p_name row = name" "p_slug row = generateSlug name" "p_status row = Planning"
    by (simp add: ha_project_create_def)
  obtain res s1 where w: "insert_project s row = (res, s1)"
    by (cases "insert_project s row")
  show ?thesis
  proof (cases res)
    case (Failure m)
    with assms w row show ?thesis by simp
  next
    case (Data d0)
    with assms w row have l: "(case logActivity s1 ''system'' ''project_created''
                     (JObj (field ''name'' (Some (JStr name)) @
                            field ''template'' (map_option JStr template)))
                     \<lparr>o_projectId = Some (p_id d0), o_team = None, o_relatedId = None,
                      o_relatedType = None\<rparr> of
                (Inl e, s2) \<Rightarrow> (Inl e, s2)
              | (Inr x, s2) \<Rightarrow> (Inr d0, s2)) = (Inr d, s')"
      by simp
    note a = logged_InrD [OF l]
    from w Data have b: "d0 = row\<lparr>p_id := next_id s, p_created_at := db_now s\<rparr>"
      "s1 = s\<lparr>projects := projects s @ [d0], next_id := Suc (next_id s)\<rparr>"
      by (auto dest: insert_project_DataD)
    from a b f show ?thesis by auto
  qed
qed

lemma ha_project_update_InrD:
  assumes "ha_project_update s i updates = (Inr d, s')"
  shows "(\<exists>p. project_row s i = Some p \<and> d = patch_project (ha_project_update_data updates) p) \<and>
         project_row s' i = Some d \<and> tasks s' = tasks s \<and>
         (\<exists>a. activity_log s' = activity_log s @ [a] \<and>
              a_project_id a = Some i \<and> a_team a = None \<and>
              a_related_id a = None \<and> a_related_type a = None \<and>
              a_agent a = ''system'' \<and> a_action a = ''project_updated'')"
proof -
  let ?v = "ha_project_update_data updates"
  obtain res s1 where w: "update_project s i ?v = (res, s1)"
    by (cases "update_project s i ?v")
  show ?thesis
  proof (cases res)
    case (Failure m)
    with assms w show ?thesis by (simp add: ha_project_update_def)
  next
    case (Data d0)
    with assms w have l: "(case logActivity s1 ''system'' ''project_updated''
          (project_updates_json updates)
          \<lparr>o_projectId = Some i, o_team = None, o_relatedId = None, o_relatedType = None\<rparr> of
        (Inl e, s2) \<Rightarrow> (Inl e, s2) | (Inr x, s2) \<Rightarrow> (Inr d0, s2)) = (Inr d, s')"
      by (simp add: ha_project_update_def)
    note a = logged_InrD [OF l]
    from w Data have b: "(\<exists>p. project_row s i = Some p \<and> d0 = patch_project ?v p) \<and>
        project_row s1 i = Some d0 \<and> tasks s1 = tasks s \<and> activity_log s1 = activity_log s"
      by (intro update_project_then) simp
    from a b have "project_row s' i = Some d"
      by (simp add: project_row_cong [of s' s1])
    with a b show ?thesis by auto
  qed
qed

section \<open>A fault of the activity log\<close>

lemma log_works_tables:
  "tasks (log_works s) = tasks s" "projects (log_works s) = projects s"
  "activity_log (log_works s) = activity_log s"
  by (simp_all add: log_works_def)

lemma update_task_log_works:
  "update_task (log_works s) i u =
     (fst (update_task s i u), log_works (snd (update_task s i u)))"
  by (auto simp: update_task_def log_works_def split: option.splits list.splits)

lemma update_project_log_works:
  "update_project (log_works s) i v =
     (fst (update_project s i v), log_works (snd (update_project s i v)))"
  by (auto simp: update_project_def log_works_def split: option.splits list.splits)

lemma insert_task_log_works:
  "insert_task (log_works s) row =
     (fst (insert_task s row), log_works (snd (insert_task s row)))"
  by (auto simp: insert_task_def log_works_def Let_def split: option.splits)

lemma insert_project_log_works:
  "insert_project (log_works s) row =
     (fst (insert_project s row), log_works (snd (insert_project s row)))"
  by (auto simp: insert_project_def log_works_def Let_def split: option.splits)

lemma update_task_keeps:
  "fault (snd (update_task s i u)) = fault s"
  "activity_log (snd (update_task s i u)) = activity_log s"
  by (auto simp: update_task_def split: option.splits list.splits)

lemma update_project_keeps:
  "fault (snd (update_project s i v)) = fault s"
  "activity_log (snd (update_project s i v)) = activity_log s"
  by (auto simp: update_project_def split: option.splits list.splits)

lemma insert_task_keeps:
  "fault (snd (insert_task s row)) = fault s"
  "activity_log (snd (insert_task s row)) = activity_log s"
  by (auto simp: insert_task_def Let_def split: option.splits)

lemma insert_project_keeps:
  "fault (snd (insert_project s row)) = fault s"
  "activity_log (snd (insert_project s row)) = activity_log s"
  by (auto simp: insert_project_def Let_def split: option.splits)

lemma logActivity_log_works:
  "logActivity (log_works s) agent action details options =
     (Inr (),
      (log_works s)\<lparr>activity_log := activity_log s @
             [\<lparr>a_id = next_id s, a_project_id = o_projectId options, a_team = o_team options,
               a_agent = agent, a_action = action, a_details = details,
               a_related_id = o_relatedId options, a_related_type = o_relatedType options,
               a_created_at = db_now s\<rparr>],
            next_id := Suc (next_id s)\<rparr>)"
  by (simp add: logActivity_def insert_activity_def log_works_def)

text \<open>
  The five handlers that log have one shape: a write of the entity, then a write of the
  activity log. Where the log is at fault and the entity is written, the handler throws
  the error of the store, and the tables are those the call leaves when the log works.
\<close>

lemma log_fault_step:
  assumes "fault s1 Activity_log = Some m"
    and "(case res of
            Failure e \<Rightarrow> (Inl (Error (pre @ e)), log_works s1)
          | Data d \<Rightarrow>
              (case logActivity (log_works s1) agent action details (options d) of
                 (Inl e, s2) \<Rightarrow> (Inl e, s2)
               | (Inr x, s2) \<Rightarrow> (Inr d, s2))) = (Inr d', s')"
  shows "(case res of
            Failure e \<Rightarrow> (Inl (Error (pre @ e)), s1)
          | Data d \<Rightarrow>
              (case logActivity s1 agent action details (options d) of
                 (Inl e, s2) \<Rightarrow> (Inl e, s2)
               | (Inr x, s2) \<Rightarrow> (Inr d, s2))) = (Inl (Error ''[object Object]''), s1) \<and>
         tasks s1 = tasks s' \<and> projects s1 = projects s'"
  using assms
  by (cases res) (auto simp: logActivity_fail logActivity_log_works log_works_tables)

lemma ha_task_status_log_fault:
  assumes f: "fault s Activity_log = Some m"
    and ok: "ha_task_status (log_works s) now i st agent notes = (Inr d, s2)"
  shows "\<exists>s1. ha_task_status s now i st agent notes = (Inl (Error ''[object Object]''), s1) \<and>
           tasks s1 = tasks s2 \<and> projects s1 = projects s2 \<and>
           activity_log s1 = activity_log s"
proof -
  let ?w = "update_task s i (ha_task_status_data now st agent notes)"
  have f1: "fault (snd ?w) Activity_log = Some m" "activity_log (snd ?w) = activity_log s"
    using f by (simp_all add: update_task_keeps)
  from ok have "(case fst ?w of
            Failure e \<Rightarrow> (Inl (Error (''Failed to update status: '' @ e)), log_works (snd ?w))
          | Data d \<Rightarrow>
              (case logActivity (log_works (snd ?w)) (orElse agent ''system'')
                      (''task_'' @ task_status_name st)
                      (JObj (field ''notes'' (map_option JStr notes)))
                      \<lparr>o_projectId = Some (t_project_id d), o_team = t_assigned_team d,
                       o_relatedId = Some i, o_relatedType = Some ''task''\<rparr> of
                 (Inl e, s2) \<Rightarrow> (Inl e, s2)
               | (Inr x, s2) \<Rightarrow> (Inr d, s2))) = (Inr d, s2)"
    by (simp add: ha_task_status_def Let_def update_task_log_works)
  from log_fault_step [OF f1(1) this] f1(2) show ?thesis
    by (simp add: ha_task_status_def Let_def case_prod_beta)
qed

lemma ha_task_assign_log_fault:
  assumes f: "fault s Activity_log = Some m"
    and ok: "ha_task_assign (log_works s) i team agent = (Inr d, s2)"
  shows "\<exists>s1. ha_task_assign s i team agent = (Inl (Error ''[object Object]''), s1) \<and>
           tasks s1 = tasks s2 \<and> projects s1 = projects s2 \<and>
           activity_log s1 = activity_log s"
proof -
  let ?w = "update_task s i (no_task_patch
               \<lparr>u_assigned_team := Some (toLowerCase team),
                u_assigned_agent := Some (map_option toLowerCase agent),
                u_status := Some Todo,
                u_updated_by := Some (orElse agent ''system'')\<rparr>)"
  have f1: "fault (snd ?w) Activity_log = Some m" "activity_log (snd ?w) = activity_log s"
    using f by (simp_all add: update_task_keeps)
  from ok have "(case fst ?w of
            Failure e \<Rightarrow> (Inl (Error (''Failed to assign task: '' @ e)), log_works (snd ?w))
          | Data d \<Rightarrow>
              (case logActivity (log_works (snd ?w)) (orElse agent ''system'') ''task_assigned''
                      (JObj (field ''team'' (Some (JStr team)) @
                             field ''agent'' (map_option JStr agent)))
                      \<lparr>o_projectId = Some (t_project_id d), o_team = Some team,
                       o_relatedId = Some i, o_relatedType = Some ''task''\<rparr> of
                 (Inl e, s2) \<Rightarrow> (Inl e, s2)
               | (Inr x, s2) \<Rightarrow> (Inr d, s2))) = (Inr d, s2)"
    by (simp add: ha_task_assign_def update_task_log_works)
  from log_fault_step [OF f1(1) this] f1(2) show ?thesis
    by (simp add: ha_task_assign_def case_prod_beta)
qed

lemma ha_project_update_log_fault:
  assumes f: "fault s Activity_log = Some m"
    and ok: "ha_project_update (log_works s) i updates = (Inr d, s2)"
  shows "\<exists>s1. ha_project_update s i updates = (Inl (Error ''[object Object]''), s1) \<and>
           tasks s1 = tasks s2 \<and> projects s1 = projects s2 \<and>
           activity_log s1 = activity_log s"
proof -
  let ?w = "update_project s i (ha_project_update_data updates)"
  have f1: "fault (snd ?w) Activity_log = Some m" "activity_log (snd ?w) = activity_log s"
    using f by (simp_all add: update_project_keeps)
  from ok have "(case fst ?w of
            Failure e \<Rightarrow> (Inl (Error (''Failed to update project: '' @ e)), log_works (snd ?w))
          | Data d \<Rightarrow>
              (case logActivity (log_works (snd ?w)) ''system'' ''project_updated''
                      (project_updates_json updates)
                      \<lparr>o_projectId = Some i, o_team = None, o_relatedId = None,
                       o_relatedType = None\<rparr> of
                 (Inl e, s2) \<Rightarrow> (Inl e, s2)
               | (Inr x, s2) \<Rightarrow> (Inr d, s2))) = (Inr d, s2)"
    by (simp add: ha_project_update_def Let_def update_project_log_works)
  from log_fault_step [OF f1(1) this] f1(2) show ?thesis
    by (simp add: ha_project_update_def Let_def case_prod_beta)
qed

lemma ha_task_create_log_fault:
  assumes f: "fault s Activity_log = Some m"
    and ok: "ha_task_create (log_works s) c = (Inr d, s2)"
  shows "\<exists>s1. ha_task_create s c = (Inl (Error ''[object Object]''), s1) \<and>
           tasks s1 = tasks s2 \<and> projects s1 = projects s2 \<and>
           activity_log s1 = activity_log s"
proof -
  obtain row where row: "\<And>s. ha_task_create s c =
      (case insert_task s row of (res, s1) \<Rightarrow>
         (case res of
            Failure m \<Rightarrow> (Inl (Error (''Failed to create task: '' @ m)), s1)
          | Data d \<Rightarrow>
             (case logActivity s1 (orElse (c_agent c) ''system'') ''task_created''
                     (JObj (field ''title'' (Some (JStr (c_title c))) @
                            field ''team'' (map_option JStr (c_team c))))
                     \<lparr>o_projectId = Some (c_project_id c), o_team = c_team c,
                      o_relatedId = Some (t_id d), o_relatedType = Some ''task''\<rparr> of
                (Inl e, s2) \<Rightarrow> (Inl e, s2)
              | (Inr _, s2) \<Rightarrow> (Inr d, s2))))"
    by (simp add: ha_task_create_def)
  let ?w = "insert_task s row"
  have f1: "fault (snd ?w) Activity_log = Some m" "activity_log (snd ?w) = activity_log s"
    using f by (simp_all add: insert_task_keeps)
  from ok have "(case fst ?w of
            Failure e \<Rightarrow> (Inl (Error (''Failed to create task: '' @ e)), log_works (snd ?w))
          | Data d \<Rightarrow>
             (case logActivity (log_works (snd ?w)) (orElse (c_agent c) ''system'') ''task_created''
                     (JObj (field ''title'' (Some (JStr (c_title c))) @
                            field ''team'' (map_option JStr (c_team c))))
                     \<lparr>o_projectId = Some (c_project_id c), o_team = c_team c,
                      o_relatedId = Some (t_id d), o_relatedType = Some ''task''\<rparr> of
                 (Inl e, s2) \<Rightarrow> (Inl e, s2)
               | (Inr x, s2) \<Rightarrow> (Inr d, s2))) = (Inr d, s2)"
    by (simp add: row insert_task_log_works)
  from log_fault_step [OF f1(1) this] f1(2) show ?thesis
    by (simp add: row case_prod_beta)
qed

lemma ha_project_create_log_fault:
  assumes f: "fault s Activity_log = Some m"
    and ok: "ha_project_create (log_works s) name description template autonomous = (Inr d, s2)"
  shows "\<exists>s1. ha_project_create s name description template autonomous =
              (Inl (Error ''[object Object]''), s1) \<and>
           tasks s1 = tasks s2 \<and> projects s1 = projects s2 \<and>
           activity_log s1 = activity_log s"
proof -
  obtain row where row: "\<And>s. ha_project_create s name description template autonomous =
      (case insert_project s row of (res, s1) \<Rightarrow>
         (case res of
            Failure m \<Rightarrow> (Inl (Error (''Failed to create project: '' @ m)), s1)
          | Data d \<Rightarrow>
             (case logActivity s1 ''system'' ''project_created''
                     (JObj (field ''name'' (Some (JStr name)) @
                            field ''template'' (map_option JStr template)))
                     \<lparr>o_projectId = Some (p_id d), o_team = None, o_relatedId = None,
                      o_relatedType = None\<rparr> of
                (Inl e, s2) \<Rightarrow> (Inl e, s2)
              | (Inr _, s2) \<Rightarrow> (Inr d, s2))))"
    by (simp add: ha_project_create_def)
  let ?w = "insert_project s row"
  have f1: "fault (snd ?w) Activity_log = Some m" "activity_log (snd ?w) = activity_log s"
    using f by (simp_all add: insert_project_keeps)
  from ok have "(case fst ?w of
            Failure e \<Rightarrow> (Inl (Error (''Failed to create project: '' @ e)), log_works (snd ?w))
          | Data d \<Rightarrow>
             (case logActivity (log_works (snd ?w)) ''system'' ''project_created''
                     (JObj (field ''name'' (Some (JStr name)) @
                            field ''template'' (map_option JStr template)))
                     \<lparr>o_projectId = Some (p_id d), o_team = None, o_relatedId = None,
                      o_relatedType = None\<rparr> of
                 (Inl e, s2) \<Rightarrow> (Inl e, s2)
               | (Inr x, s2) \<Rightarrow> (Inr d, s2))) = (Inr d, s2)"
    by (simp add: row insert_project_log_works)
  from log_fault_step [OF f1(1) this] f1(2) show ?thesis
    by (simp add: row case_prod_beta)
qed

section \<open>Task lists\<close>

lemma key_le_listed:
  "(priority_rank (t_priority a), - int (t_created_at a))
     \<le> (priority_rank (t_priority b), - int (t_created_at b)) \<Longrightarrow> listed_before a b"
  by (cases "t_priority a"; cases "t_priority b")
     (auto simp: listed_before_def priority_before_def priority_rank_def less_eq_prod_def)

lemma select_tasks_ordered_sorted:
  assumes "select_tasks_ordered priority_rank s f = Data ts"
  shows "sorted_wrt listed_before ts"
proof -
  let ?k = "\<lambda>t. (priority_rank (t_priority t), - int (t_created_at t))"
  from assms have "ts = sort_key ?k (filter f (tasks s))"
    by (auto simp: select_tasks_ordered_def split: option.splits)
  then have "sorted (map ?k ts)" by simp
  then have "sorted_wrt (\<lambda>a b. ?k a \<le> ?k b) ts"
    by (simp add: sorted_map)
  then show ?thesis
    by (rule sorted_wrt_mono_rel [rotated]) (rule key_le_listed)
qed

text \<open>
  C9. The list that \<^verbatim>\<open>ha_task_my_tasks\<close> or \<^verbatim>\<open>ha_task_team_tasks\<close> returns is sorted by
  priority ascending in the order critical < high < medium < low, and among tasks of one
  priority by creation time descending. The handlers leave the comparison of priorities
  to the store; the store compares by \<open>priority_rank\<close>.
\<close>

theorem task_lists_sorted:
  "(ha_task_my_tasks priority_rank s agent include_done = Inr ts \<longrightarrow>
      sorted_wrt listed_before ts) \<and>
   (ha_task_team_tasks priority_rank s team include_done = Inr ts \<longrightarrow>
      sorted_wrt listed_before ts)"
  by (auto simp: ha_task_my_tasks_def ha_task_team_tasks_def
      split: response.splits dest: select_tasks_ordered_sorted)

theorem task_lists_sorted_witness:
  "map_sum id (map t_id) (ha_task_my_tasks priority_rank backlog_store ''Ava'' None)
     = Inr [3, 5, 4, 1, 2] \<and>
   map_sum id (map t_id) (ha_task_team_tasks priority_rank backlog_store ''PixelCraft'' (Some True))
     = Inr [3, 5, 4, 1, 2] \<and>
   sorted_wrt listed_before
     (projr (ha_task_my_tasks priority_rank backlog_store ''Ava'' None)) \<and>
   sorted_wrt listed_before
     (projr (ha_task_team_tasks priority_rank backlog_store ''PixelCraft'' (Some True)))"
proof -
  let ?m = "ha_task_my_tasks priority_rank backlog_store ''Ava'' None"
  let ?t = "ha_task_team_tasks priority_rank backlog_store ''PixelCraft'' (Some True)"
  have m: "map_sum id (map t_id) ?m = Inr [3, 5, 4, 1, 2]" by code_simp
  have t: "map_sum id (map t_id) ?t = Inr [3, 5, 4, 1, 2]" by code_simp
  from m have "?m = Inr (projr ?m)" by (cases ?m) simp_all
  then have 1: "sorted_wrt listed_before (projr ?m)"
    using task_lists_sorted [where s = backlog_store and ts = "projr ?m"] by blast
  from t have "?t = Inr (projr ?t)" by (cases ?t) simp_all
  then have 2: "sorted_wrt listed_before (projr ?t)"
    using task_lists_sorted [where s = backlog_store and ts = "projr ?t"] by blast
  from m t 1 2 show ?thesis by blast
qed

section \<open>Assignment\<close>

text \<open>
  C10. A call of \<^verbatim>\<open>ha_task_assign\<close> that gives no agent and succeeds writes
  \<^verbatim>\<open>assigned_agent = null\<close>, whatever agent the task had, and \<^verbatim>\<open>updated_by = 'system'\<close>;
  the row it returns is the row of the task in the store.
\<close>

theorem assign_without_agent:
  assumes "ha_task_assign s i team None = (Inr d, s')"
  shows "t_assigned_agent d = None \<and> t_updated_by d = Some ''system'' \<and>
         task_row s' i = Some d"
  using ha_task_assign_InrD [OF assms]
  by (auto simp: patch_task_fields patched_def no_task_patch_def orElse_def)

theorem assign_without_agent_witness:
  "t_assigned_agent example_task = Some ''ava'' \<and>
   fst (ha_task_assign example_store 1 ''DevForge'' None) = Inr reassigned_task \<and>
   t_assigned_agent reassigned_task = None \<and>
   t_updated_by reassigned_task = Some ''system'' \<and>
   task_row (snd (ha_task_assign example_store 1 ''DevForge'' None)) 1 = Some reassigned_task"
proof -
  let ?c = "ha_task_assign example_store 1 ''DevForge'' None"
  have a: "t_assigned_agent example_task = Some ''ava''" by code_simp
  have f: "fst ?c = Inr reassigned_task" by code_simp
  then have "?c = (Inr reassigned_task, snd ?c)" by (simp add: prod_eq_iff)
  from assign_without_agent [OF this] a f show ?thesis by blast
qed

section \<open>Timestamps of a task\<close>

text \<open>
  C2, as the code has it. Every successful write of the status \<^verbatim>\<open>in_progress\<close>, by
  \<^verbatim>\<open>ha_task_status\<close> or by \<^verbatim>\<open>ha_task_update\<close> with a status, sets \<^verbatim>\<open>started_at\<close> to the
  instant of the call, whether it was set before or not; every write of \<^verbatim>\<open>done\<close> does so
  for \<^verbatim>\<open>completed_at\<close>; a write of any other status leaves the timestamp as it was.
\<close>

theorem timestamps_follow_last_transition:
  assumes "task_row s i = Some t"
  shows "(ha_task_status s now i st agent notes = (Inr d, s') \<longrightarrow>
            task_row s' i = Some d \<and>
            t_started_at d = (if st = In_progress then Some now else t_started_at t) \<and>
            t_completed_at d = (if st = Done then Some now else t_completed_at t)) \<and>
         (ha_task_update s now i by updates = (Inr d, s') \<and> upd_status updates = Some st \<longrightarrow>
            task_row s' i = Some d \<and>
            t_started_at d = (if st = In_progress then Some now else t_started_at t) \<and>
            t_completed_at d = (if st = Done then Some now else t_completed_at t))"
proof (intro conjI impI)
  assume c: "ha_task_status s now i st agent notes = (Inr d, s')"
  from ha_task_status_InrD [OF c] assms
  have d: "d = patch_task (ha_task_status_data now st agent notes) t"
    and r: "task_row s' i = Some d" by auto
  from r show "task_row s' i = Some d" .
  from d show "t_started_at d = (if st = In_progress then Some now else t_started_at t)"
    by (simp add: patch_task_fields ha_task_status_data_fields patched_def)
  from d show "t_completed_at d = (if st = Done then Some now else t_completed_at t)"
    by (simp add: patch_task_fields ha_task_status_data_fields patched_def)
next
  assume "ha_task_update s now i by updates = (Inr d, s') \<and> upd_status updates = Some st"
  then have c: "ha_task_update s now i by updates = (Inr d, s')"
    and st: "upd_status updates = Some st" by simp_all
  from ha_task_update_InrD [OF c] assms
  have d: "d = patch_task (ha_task_update_data now by updates) t"
    and r: "task_row s' i = Some d" by auto
  from r show "task_row s' i = Some d" .
  from d st show "t_started_at d = (if st = In_progress then Some now else t_started_at t)"
    by (simp add: patch_task_fields ha_task_update_data_fields patched_def)
  from d st show "t_completed_at d = (if st = Done then Some now else t_completed_at t)"
    by (simp add: patch_task_fields ha_task_update_data_fields patched_def)
qed

theorem timestamps_follow_last_transition_witness:
  "task_row started_store 1 = Some started_task \<and>
   t_started_at started_task = Some 5 \<and>
   fst (ha_task_status started_store 9 1 In_progress (Some ''ava'') None) = Inr restarted_task \<and>
   t_started_at restarted_task = Some 9 \<and>
   upd_status (no_task_updates\<lparr>upd_status := Some In_progress\<rparr>) = Some In_progress \<and>
   fst (ha_task_update started_store 9 1 (Some ''ava'')
          (no_task_updates\<lparr>upd_status := Some In_progress\<rparr>)) = Inr restarted_task \<and>
   task_row (snd (ha_task_update started_store 9 1 (Some ''ava'')
          (no_task_updates\<lparr>upd_status := Some In_progress\<rparr>))) 1 = Some restarted_task"
proof -
  let ?c = "ha_task_status started_store 9 1 In_progress (Some ''ava'') None"
  let ?u = "ha_task_update started_store 9 1 (Some ''ava'')
              (no_task_updates\<lparr>upd_status := Some In_progress\<rparr>)"
  have r: "task_row started_store 1 = Some started_task" by code_simp
  have t: "t_started_at started_task = Some 5" by code_simp
  have c: "fst ?c = Inr restarted_task" by code_simp
  have u: "fst ?u = Inr restarted_task" by code_simp
  have st: "upd_status (no_task_updates\<lparr>upd_status := Some In_progress\<rparr>) = Some In_progress"
    by simp
  from c have "?c = (Inr restarted_task, snd ?c)" by (simp add: prod_eq_iff)
  with timestamps_follow_last_transition [OF r, where now = 9 and st = In_progress]
  have 1: "t_started_at restarted_task = Some 9" by fastforce
  from u have "?u = (Inr restarted_task, snd ?u)" by (simp add: prod_eq_iff)
  with timestamps_follow_last_transition [OF r, where now = 9 and st = In_progress] st
  have 2: "task_row (snd ?u) 1 = Some restarted_task" by fastforce
  from r t c u st 1 2 show ?thesis by blast
qed

text \<open>
  C2, as the specification states it, fails: a task started at the instant 5 and moved
  to \<^verbatim>\<open>in_progress\<close> again at the instant 9, by either handler, has \<^verbatim>\<open>started_at\<close> 9.
\<close>

theorem started_at_restamped:
  "map_option t_started_at (task_row started_store 1) = Some (Some 5) \<and>
   map_option t_started_at
     (returned (ha_task_status started_store 9 1 In_progress (Some ''ava'') None))
     = Some (Some 9) \<and>
   map_option t_started_at
     (returned (ha_task_update started_store 9 1 (Some ''ava'')
        (no_task_updates\<lparr>upd_status := Some In_progress\<rparr>)))
     = Some (Some 9)"
  by code_simp

section \<open>The dashboard\<close>

lemma ha_status_project_reads_project_only:
  assumes "select_project s i = Data p"
  shows "\<exists>d. ha_status_project s i = Inr d \<and> d_project d = p"
  using assms by (simp add: ha_status_project_def Let_def)

lemma ha_status_project_without_tasks:
  assumes "select_project s i = Data p" and "fault s Tasks = Some m"
  shows "\<exists>d. ha_status_project s i = Inr d \<and> d_total d = 0 \<and>
           d_by_status d = [] \<and> d_by_team d = []"
  using assms
  by (simp add: ha_status_project_def select_project_tasks_def own_property_order_def Let_def)

lemma ha_status_project_without_activity:
  assumes "select_project s i = Data p" and "fault s Activity_log = Some m"
  shows "\<exists>d. ha_status_project s i = Inr d \<and> d_recent_activity d = []"
  using assms by (simp add: ha_status_project_def select_recent_activity_def Let_def)

text \<open>
  C1, at a store where the project can be read and the two other requests fail:
  \<^verbatim>\<open>ha_status_project\<close> returns a dashboard, with no task and no activity in it, although
  the store holds one task and one activity row of the project.
\<close>

theorem dashboard_hides_failed_fetches:
  "ha_status_project fetch_fault_store 0 =
     Inr \<lparr>d_project = example_project, d_total = 0, d_by_status = [], d_by_team = [],
          d_recent_activity = []\<rparr> \<and>
   map t_project_id (tasks fetch_fault_store) = [0] \<and>
   map a_project_id (activity_log fetch_fault_store) = [Some 0]"
  by code_simp

section \<open>The reason of a blocker\<close>

lemma ha_task_status_clears_blocker_reason:
  assumes "ha_task_status s now i st agent notes = (Inr d, s')" and "st \<noteq> Blocked"
  shows "t_blocker_reason d = None"
  using ha_task_status_InrD [OF assms(1)] assms(2)
  by (auto simp: patch_task_fields ha_task_status_data_fields patched_def)

lemma ha_task_update_keeps_blocker_reason:
  assumes "ha_task_update s now i by updates = (Inr d, s')" and "task_row s i = Some t"
  shows "t_blocker_reason d = t_blocker_reason t"
  using ha_task_update_InrD [OF assms(1)] assms(2)
  by (auto simp: patch_task_fields ha_task_update_data_fields patched_def)

lemma ha_task_assign_keeps_blocker_reason:
  assumes "ha_task_assign s i team agent = (Inr d, s')" and "task_row s i = Some t"
  shows "t_blocker_reason d = t_blocker_reason t \<and> t_status d = Todo"
  using ha_task_assign_InrD [OF assms(1)] assms(2)
  by (auto simp: patch_task_fields patched_def no_task_patch_def)

text \<open>
  C3, at a task that is blocked with a reason: \<^verbatim>\<open>ha_task_update\<close> with the status
  \<^verbatim>\<open>todo\<close>, and \<^verbatim>\<open>ha_task_assign\<close>, both move the task to \<^verbatim>\<open>todo\<close> and leave
  \<^verbatim>\<open>blocker_reason\<close> as it was; \<^verbatim>\<open>ha_task_status\<close> with the same status clears it.
\<close>

theorem blocker_reason_outlives_blocked:
  "task_row blocked_store 1 = Some blocked_task \<and>
   map_option (\<lambda>t. (t_status t, t_blocker_reason t))
     (returned (ha_task_update blocked_store 6 1 None (no_task_updates\<lparr>upd_status := Some Todo\<rparr>)))
     = Some (Todo, Some ''waiting on assets'') \<and>
   map_option (\<lambda>t. (t_status t, t_blocker_reason t))
     (returned (ha_task_assign blocked_store 1 ''pixelcraft'' (Some ''ava'')))
     = Some (Todo, Some ''waiting on assets'') \<and>
   map_option (\<lambda>t. (t_status t, t_blocker_reason t))
     (returned (ha_task_status blocked_store 6 1 Todo None None))
     = Some (Todo, None)"
  by code_simp

section \<open>Slugs with hyphens at the ends\<close>

text \<open>
  C5, at a name with a space at each end: the slug starts and ends with a hyphen. The
  last step of \<^verbatim>\<open>generateSlug\<close> trims white space, of which none is left by then.
\<close>

theorem generateSlug_edge_hyphens:
  "generateSlug '' Acme Launch '' = ''-acme-launch-'' \<and>
   generateSlug ''-beta-'' = ''-beta-'' \<and>
   generateSlug ''Acme Launch'' = ''acme-launch''"
  by code_simp

section \<open>The generic update and the status setter\<close>




section \<open>One activity row for a call\<close>

text \<open>
  Every successful call of \<^verbatim>\<open>ha_project_create\<close>, \<^verbatim>\<open>ha_project_update\<close>,
  \<^verbatim>\<open>ha_task_create\<close>, \<^verbatim>\<open>ha_task_assign\<close> or \<^verbatim>\<open>ha_task_status\<close> appends exactly one row
  to the activity log, with the project and the related id of the entity it wrote. The team
  of the row is the stored \<^verbatim>\<open>assigned_team\<close> in \<^verbatim>\<open>ha_task_status\<close> only; the two other task
  handlers pass on their argument.
\<close>

lemma logging_appends_one_row:
  "(ha_project_create s name description template autonomous = (Inr p, s') \<longrightarrow>
      (\<exists>a. activity_log s' = activity_log s @ [a] \<and>
           a_project_id a = Some (p_id p) \<and> a_team a = None \<and> a_related_id a = None)) \<and>
   (ha_project_update s i updates = (Inr p, s') \<longrightarrow>
      (\<exists>a. activity_log s' = activity_log s @ [a] \<and> p_id p = i \<and>
           a_project_id a = Some (p_id p) \<and> a_team a = None \<and> a_related_id a = None)) \<and>
   (ha_task_create s c = (Inr t, s') \<longrightarrow>
      (\<exists>a. activity_log s' = activity_log s @ [a] \<and>
           a_project_id a = Some (t_project_id t) \<and> a_related_id a = Some (t_id t) \<and>
           a_team a = c_team c \<and> t_assigned_team t = map_option toLowerCase (c_team c))) \<and>
   (ha_task_assign s i team agent = (Inr t, s') \<longrightarrow>
      (\<exists>a. activity_log s' = activity_log s @ [a] \<and> t_id t = i \<and>
           a_project_id a = Some (t_project_id t) \<and> a_related_id a = Some (t_id t) \<and>
           a_team a = Some team \<and> t_assigned_team t = Some (toLowerCase team))) \<and>
   (ha_task_status s now i st agent notes = (Inr t, s') \<longrightarrow>
      (\<exists>a. activity_log s' = activity_log s @ [a] \<and> t_id t = i \<and>
           a_project_id a = Some (t_project_id t) \<and> a_related_id a = Some (t_id t) \<and>
           a_team a = t_assigned_team t))"
proof (intro conjI impI)
  assume "ha_project_create s name description template autonomous = (Inr p, s')"
  from ha_project_create_InrD [OF this]
  show "\<exists>a. activity_log s' = activity_log s @ [a] \<and>
           a_project_id a = Some (p_id p) \<and> a_team a = None \<and> a_related_id a = None"
    by blast
next
  assume "ha_project_update s i updates = (Inr p, s')"
  from ha_project_update_InrD [OF this]
  have "project_row s' i = Some p"
    and "\<exists>a. activity_log s' = activity_log s @ [a] \<and>
           a_project_id a = Some i \<and> a_team a = None \<and> a_related_id a = None"
    by blast+
  moreover from this(1) have "p_id p = i" by (rule project_row_id)
  ultimately show "\<exists>a. activity_log s' = activity_log s @ [a] \<and> p_id p = i \<and>
           a_project_id a = Some (p_id p) \<and> a_team a = None \<and> a_related_id a = None"
    by auto
next
  assume "ha_task_create s c = (Inr t, s')"
  from ha_task_create_InrD [OF this]
  show "\<exists>a. activity_log s' = activity_log s @ [a] \<and>
           a_project_id a = Some (t_project_id t) \<and> a_related_id a = Some (t_id t) \<and>
           a_team a = c_team c \<and> t_assigned_team t = map_option toLowerCase (c_team c)"
    by auto
next
  assume "ha_task_assign s i team agent = (Inr t, s')"
  from ha_task_assign_InrD [OF this]
  have r: "task_row s' i = Some t"
    and d: "\<exists>t0. t = patch_task (no_task_patch
                    \<lparr>u_assigned_team := Some (toLowerCase team),
                     u_assigned_agent := Some (map_option toLowerCase agent),
                     u_status := Some Todo,
                     u_updated_by := Some (orElse agent ''system'')\<rparr>) t0"
    and a: "\<exists>a. activity_log s' = activity_log s @ [a] \<and>
              a_project_id a = Some (t_project_id t) \<and> a_team a = Some team \<and>
              a_related_id a = Some i"
    by blast+
  from r have "t_id t = i" by (rule task_row_id)
  moreover from d have "t_assigned_team t = Some (toLowerCase team)"
    by (auto simp: patch_task_fields patched_def no_task_patch_def)
  ultimately show "\<exists>a. activity_log s' = activity_log s @ [a] \<and> t_id t = i \<and>
           a_project_id a = Some (t_project_id t) \<and> a_related_id a = Some (t_id t) \<and>
           a_team a = Some team \<and> t_assigned_team t = Some (toLowerCase team)"
    using a by auto
next
  assume "ha_task_status s now i st agent notes = (Inr t, s')"
  from ha_task_status_InrD [OF this]
  have r: "task_row s' i = Some t"
    and a: "\<exists>a. activity_log s' = activity_log s @ [a] \<and>
              a_project_id a = Some (t_project_id t) \<and> a_team a = t_assigned_team t \<and>
              a_related_id a = Some i"
    by blast+
  from r have "t_id t = i" by (rule task_row_id)
  with a show "\<exists>a. activity_log s' = activity_log s @ [a] \<and> t_id t = i \<and>
           a_project_id a = Some (t_project_id t) \<and> a_related_id a = Some (t_id t) \<and>
           a_team a = t_assigned_team t"
    by auto
qed

text \<open>
  C7, at a task created for the team \<^verbatim>\<open>WordSmiths\<close> and at a task assigned to the team
  \<^verbatim>\<open>DevForge\<close>: the task holds the team in lower case, and the activity row of the call
  holds it as the caller wrote it. A later \<^verbatim>\<open>ha_task_status\<close> on the created task logs the
  stored team, so the rows of one task name its team in two spellings.
\<close>

theorem logged_team_keeps_case:
  "map_option t_assigned_team (returned (ha_task_create example_store example_create))
     = Some (Some ''wordsmiths'') \<and>
   map a_team (activity_log (snd (ha_task_create example_store example_create)))
     = [Some ''WordSmiths''] \<and>
   map (\<lambda>a. (a_related_id a, a_team a))
     (activity_log (snd (ha_task_status (snd (ha_task_create example_store example_create))
        5 2 Review None None)))
     = [(Some 2, Some ''WordSmiths''), (Some 2, Some ''wordsmiths'')] \<and>
   map_option t_assigned_team (returned (ha_task_assign example_store 1 ''DevForge'' None))
     = Some (Some ''devforge'') \<and>
   map a_team (activity_log (snd (ha_task_assign example_store 1 ''DevForge'' None)))
     = [Some ''DevForge'']"
  by code_simp

section \<open>A failed activity write after the entity write\<close>

text \<open>
  Let the activity log be at fault, and take a call of one of the five logging handlers
  whose write of the entity succeeds, that is, a call that succeeds on the same store once
  the log works. Then the call throws, the activity log is unchanged, and the write of the
  entity stays: the new row is the last of its table, or the updated row is the row of its
  key. What the call throws is the error \<^verbatim>\<open>handleError\<close> makes of the plain error object:
  its message is \<^verbatim>\<open>[object Object]\<close>, whatever the message \<open>m\<close> of the store.
\<close>

lemma log_fault_after_entity_write:
  assumes "fault s Activity_log = Some m"
  shows "(ha_project_create (log_works s) name description template autonomous = (Inr p, s2) \<longrightarrow>
            (\<exists>s1. ha_project_create s name description template autonomous
                     = (Inl (Error ''[object Object]''), s1) \<and>
                  projects s1 = projects s @ [p] \<and> activity_log s1 = activity_log s)) \<and>
         (ha_project_update (log_works s) i updates = (Inr p, s2) \<longrightarrow>
            (\<exists>s1. ha_project_update s i updates = (Inl (Error ''[object Object]''), s1) \<and>
                  project_row s1 i = Some p \<and> activity_log s1 = activity_log s)) \<and>
         (ha_task_create (log_works s) c = (Inr t, s2) \<longrightarrow>
            (\<exists>s1. ha_task_create s c = (Inl (Error ''[object Object]''), s1) \<and>
                  tasks s1 = tasks s @ [t] \<and> activity_log s1 = activity_log s)) \<and>
         (ha_task_assign (log_works s) i team agent = (Inr t, s2) \<longrightarrow>
            (\<exists>s1. ha_task_assign s i team agent = (Inl (Error ''[object Object]''), s1) \<and>
                  task_row s1 i = Some t \<and> activity_log s1 = activity_log s)) \<and>
         (ha_task_status (log_works s) now i st agent notes = (Inr t, s2) \<longrightarrow>
            (\<exists>s1. ha_task_status s now i st agent notes = (Inl (Error ''[object Object]''), s1) \<and>
                  task_row s1 i = Some t \<and> activity_log s1 = activity_log s))"
proof (intro conjI impI)
  assume ok: "ha_project_create (log_works s) name description template autonomous = (Inr p, s2)"
  from ha_project_create_InrD [OF ok] have "projects s2 = projects s @ [p]"
    by (simp add: log_works_tables)
  with ha_project_create_log_fault [OF assms ok]
  show "\<exists>s1. ha_project_create s name description template autonomous
                     = (Inl (Error ''[object Object]''), s1) \<and>
                  projects s1 = projects s @ [p] \<and> activity_log s1 = activity_log s"
    by auto
next
  assume ok: "ha_project_update (log_works s) i updates = (Inr p, s2)"
  from ha_project_update_InrD [OF ok] have r: "project_row s2 i = Some p" by simp
  from ha_project_update_log_fault [OF assms ok] obtain s1
    where "ha_project_update s i updates = (Inl (Error ''[object Object]''), s1)"
      and "projects s1 = projects s2" and "activity_log s1 = activity_log s"
    by blast
  with r show "\<exists>s1. ha_project_update s i updates = (Inl (Error ''[object Object]''), s1) \<and>
                  project_row s1 i = Some p \<and> activity_log s1 = activity_log s"
    by (auto simp: project_row_cong [of s1 s2])
next
  assume ok: "ha_task_create (log_works s) c = (Inr t, s2)"
  from ha_task_create_InrD [OF ok] have "tasks s2 = tasks s @ [t]"
    by (simp add: log_works_tables)
  with ha_task_create_log_fault [OF assms ok]
  show "\<exists>s1. ha_task_create s c = (Inl (Error ''[object Object]''), s1) \<and>
                  tasks s1 = tasks s @ [t] \<and> activity_log s1 = activity_log s"
    by auto
next
  assume ok: "ha_task_assign (log_works s) i team agent = (Inr t, s2)"
  from ha_task_assign_InrD [OF ok] have r: "task_row s2 i = Some t" by simp
  from ha_task_assign_log_fault [OF assms ok] obtain s1
    where "ha_task_assign s i team agent = (Inl (Error ''[object Object]''), s1)"
      and "tasks s1 = tasks s2" and "activity_log s1 = activity_log s"
    by blast
  with r show "\<exists>s1. ha_task_assign s i team agent = (Inl (Error ''[object Object]''), s1) \<and>
                  task_row s1 i = Some t \<and> activity_log s1 = activity_log s"
    by (auto simp: task_row_cong [of s1 s2])
next
  assume ok: "ha_task_status (log_works s) now i st agent notes = (Inr t, s2)"
  from ha_task_status_InrD [OF ok] have r: "task_row s2 i = Some t" by simp
  from ha_task_status_log_fault [OF assms ok] obtain s1
    where "ha_task_status s now i st agent notes = (Inl (Error ''[object Object]''), s1)"
      and "tasks s1 = tasks s2" and "activity_log s1 = activity_log s"
    by blast
  with r show "\<exists>s1. ha_task_status s now i st agent notes = (Inl (Error ''[object Object]''), s1) \<and>
                  task_row s1 i = Some t \<and> activity_log s1 = activity_log s"
    by (auto simp: task_row_cong [of s1 s2])
qed

text \<open>
  C8, at a store whose activity log fails with the message \<^verbatim>\<open>connection reset\<close>: each of
  the five logging handlers fails as a whole and its entity write stays, but the caller
  gets \<^verbatim>\<open>Error('[object Object]')\<close>, not the error of the store. The handlers' own
  \<^verbatim>\<open>throw\<close> statements keep the message of the store; \<^verbatim>\<open>handleError\<close> loses it.
\<close>

theorem log_fault_loses_store_error:
  "fault log_fault_store Activity_log = Some ''connection reset'' \<and>
   (let r = ha_project_create log_fault_store ''Beta Site'' None None None
    in fst r = Inl (Error ''[object Object]'') \<and>
       map p_name (projects (snd r)) = [''Acme Launch'', ''Beta Site''] \<and>
       activity_log (snd r) = []) \<and>
   (let r = ha_project_update log_fault_store 0 example_updates
    in fst r = Inl (Error ''[object Object]'') \<and>
       map_option p_name (project_row (snd r) 0) = Some ''Acme Relaunch'' \<and>
       activity_log (snd r) = []) \<and>
   (let r = ha_task_create log_fault_store example_create
    in fst r = Inl (Error ''[object Object]'') \<and>
       map t_title (tasks (snd r)) = [''Design homepage'', ''Write copy''] \<and>
       activity_log (snd r) = []) \<and>
   (let r = ha_task_assign log_fault_store 1 ''DevForge'' None
    in fst r = Inl (Error ''[object Object]'') \<and>
       task_row (snd r) 1 = Some reassigned_task \<and>
       activity_log (snd r) = []) \<and>
   (let r = ha_task_status log_fault_store 5 1 In_progress (Some ''ava'') None
    in fst r = Inl (Error ''[object Object]'') \<and>
       task_row (snd r) 1 = Some started_task \<and>
       activity_log (snd r) = []) \<and>
   fault fetch_fault_store Tasks = Some ''connection reset'' \<and>
   fst (ha_task_status fetch_fault_store 5 1 In_progress (Some ''ava'') None)
     = Inl (Error ''Failed to update status: connection reset'')"
proof -
  let ?s = "log_fault_store"
  let ?pc = "ha_project_create (log_works ?s) ''Beta Site'' None None None"
  let ?pu = "ha_project_update (log_works ?s) 0 example_updates"
  let ?tc = "ha_task_create (log_works ?s) example_create"
  let ?ta = "ha_task_assign (log_works ?s) 1 ''DevForge'' None"
  let ?ts = "ha_task_status (log_works ?s) 5 1 In_progress (Some ''ava'') None"
  have f: "fault ?s Activity_log = Some ''connection reset''" by code_simp
  have e: "activity_log ?s = []" "map p_name (projects ?s) = [''Acme Launch'']"
    "map t_title (tasks ?s) = [''Design homepage'']"
    by code_simp+
  have "fst ?pc = Inr (the (returned ?pc))" "p_name (the (returned ?pc)) = ''Beta Site''"
    by code_simp+
  then have pc: "?pc = (Inr (the (returned ?pc)), snd ?pc)"
    and pcn: "p_name (the (returned ?pc)) = ''Beta Site''" by (simp_all add: prod_eq_iff)
  have "fst ?pu = Inr (the (returned ?pu))" "p_name (the (returned ?pu)) = ''Acme Relaunch''"
    by code_simp+
  then have pu: "?pu = (Inr (the (returned ?pu)), snd ?pu)"
    and pun: "p_name (the (returned ?pu)) = ''Acme Relaunch''" by (simp_all add: prod_eq_iff)
  have "fst ?tc = Inr (the (returned ?tc))" "t_title (the (returned ?tc)) = ''Write copy''"
    by code_simp+
  then have tc: "?tc = (Inr (the (returned ?tc)), snd ?tc)"
    and tcn: "t_title (the (returned ?tc)) = ''Write copy''" by (simp_all add: prod_eq_iff)
  have "fst ?ta = Inr reassigned_task" by code_simp
  then have ta: "?ta = (Inr reassigned_task, snd ?ta)" by (simp add: prod_eq_iff)
  have "fst ?ts = Inr started_task" by code_simp
  then have ts: "?ts = (Inr started_task, snd ?ts)" by (simp add: prod_eq_iff)
  note keeps = log_fault_after_entity_write [OF f]
  have 1: "let r = ha_project_create ?s ''Beta Site'' None None None
    in fst r = Inl (Error ''[object Object]'') \<and>
       map p_name (projects (snd r)) = [''Acme Launch'', ''Beta Site''] \<and>
       activity_log (snd r) = []"
    using keeps [THEN conjunct1, rule_format, OF pc] e pcn by (auto simp: Let_def)
  have 2: "let r = ha_project_update ?s 0 example_updates
    in fst r = Inl (Error ''[object Object]'') \<and>
       map_option p_name (project_row (snd r) 0) = Some ''Acme Relaunch'' \<and>
       activity_log (snd r) = []"
    using keeps [THEN conjunct2, THEN conjunct1, rule_format, OF pu] e pun
    by (auto simp: Let_def)
  have 3: "let r = ha_task_create ?s example_create
    in fst r = Inl (Error ''[object Object]'') \<and>
       map t_title (tasks (snd r)) = [''Design homepage'', ''Write copy''] \<and>
       activity_log (snd r) = []"
    using keeps [THEN conjunct2, THEN conjunct2, THEN conjunct1, rule_format, OF tc] e tcn
    by (auto simp: Let_def)
  have 4: "let r = ha_task_assign ?s 1 ''DevForge'' None
    in fst r = Inl (Error ''[object Object]'') \<and>
       task_row (snd r) 1 = Some reassigned_task \<and>
       activity_log (snd r) = []"
    using keeps [THEN conjunct2, THEN conjunct2, THEN conjunct2, THEN conjunct1, rule_format, OF ta] e
    by (auto simp: Let_def)
  have 5: "let r = ha_task_status ?s 5 1 In_progress (Some ''ava'') None
    in fst r = Inl (Error ''[object Object]'') \<and>
       task_row (snd r) 1 = Some started_task \<and>
       activity_log (snd r) = []"
    using keeps [THEN conjunct2, THEN conjunct2, THEN conjunct2, THEN conjunct2, rule_format, OF ts] e
    by (auto simp: Let_def)
  have 6: "fault fetch_fault_store Tasks = Some ''connection reset''"
    "fst (ha_task_status fetch_fault_store 5 1 In_progress (Some ''ava'') None)
       = Inl (Error ''Failed to update status: connection reset'')"
    by code_simp+
  from f 1 2 3 4 5 6 show ?thesis by blast
qed

end
